theory Spec2Isabelle
  imports Complex_Main "HOL-Library.Log_Nat" "HOL-Library.Sublist"
begin

section \<open>JavaScript values used by the front end\<close>

subsection \<open>Numbers\<close>

text \<open>
  A JavaScript \<^verbatim>\<open>number\<close> is an IEEE 754 binary64 value. A finite double is modelled by
  its exact rational value \<open>Fin q\<close>; the two zeros are identified, which no operation used
  by this program can tell apart (the only divisor is an array length, which is \<open>+0\<close> when
  it is zero). Arithmetic computes the exact rational result and rounds it to the nearest
  double, ties to even, as the hardware does.
\<close>

datatype number = Fin rat | PosInfinity | NegInfinity | NaN

definition round_even :: "rat \<Rightarrow> int" where
  "round_even q =
     (let f = \<lfloor>q\<rfloor>; r = q - of_int f
      in if r < 1 / 2 then f else if 1 / 2 < r then f + 1 else if even f then f else f + 1)"

text \<open>\<open>ilog b q\<close> is the integer \<open>e\<close> with \<open>b ^ e \<le> q < b ^ (e + 1)\<close>, for \<open>0 < q\<close>.\<close>

definition ilog :: "nat \<Rightarrow> rat \<Rightarrow> int" where
  "ilog b q =
     (let (n, d) = quotient_of q;
          e = int (floorlog b (nat n)) - int (floorlog b (nat d))
      in if q < of_nat b powi e then e - 1 else e)"

text \<open>
  Rounding of an exact result to binary64: 53 significant bits, the exponent of the last
  bit at least \<open>-1074\<close> (subnormal numbers), overflow to an infinity.
\<close>

definition round_double :: "rat \<Rightarrow> number" where
  "round_double q =
     (if q = 0 then Fin 0
      else
        let e = max (ilog 2 \<bar>q\<bar> - 52) (- 1074);
            v = of_int (round_even (\<bar>q\<bar> / 2 powi e)) * 2 powi e
        in if 2 ^ 1024 \<le> v then (if 0 < q then PosInfinity else NegInfinity)
           else Fin (sgn q * v))"

text \<open>The operator \<^verbatim>\<open>+\<close> on numbers.\<close>

fun js_add :: "number \<Rightarrow> number \<Rightarrow> number" where
  "js_add (Fin a) (Fin b) = round_double (a + b)"
| "js_add NaN _ = NaN"
| "js_add _ NaN = NaN"
| "js_add PosInfinity NegInfinity = NaN"
| "js_add NegInfinity PosInfinity = NaN"
| "js_add PosInfinity _ = PosInfinity"
| "js_add NegInfinity _ = NegInfinity"
| "js_add _ PosInfinity = PosInfinity"
| "js_add _ NegInfinity = NegInfinity"

text \<open>The operator \<^verbatim>\<open>/\<close> on numbers, for a divisor that is not \<open>-0\<close>.\<close>

fun js_div :: "number \<Rightarrow> number \<Rightarrow> number" where
  "js_div (Fin a) (Fin b) =
     (if b = 0 then (if a = 0 then NaN else if 0 < a then PosInfinity else NegInfinity)
      else round_double (a / b))"
| "js_div NaN _ = NaN"
| "js_div _ NaN = NaN"
| "js_div (Fin a) _ = Fin 0"
| "js_div PosInfinity (Fin b) = (if 0 \<le> b then PosInfinity else NegInfinity)"
| "js_div NegInfinity (Fin b) = (if 0 \<le> b then NegInfinity else PosInfinity)"
| "js_div _ _ = NaN"

text \<open>\<^verbatim>\<open>Math.abs(x)\<close>, \<^verbatim>\<open>x >= 0\<close> and the truth value of a number in a condition.\<close>

fun Math_abs :: "number \<Rightarrow> number" where
  "Math_abs (Fin q) = Fin \<bar>q\<bar>"
| "Math_abs PosInfinity = PosInfinity"
| "Math_abs NegInfinity = PosInfinity"
| "Math_abs NaN = NaN"

fun ge_zero :: "number \<Rightarrow> bool" where
  "ge_zero (Fin q) = (0 \<le> q)"
| "ge_zero PosInfinity = True"
| "ge_zero NegInfinity = False"
| "ge_zero NaN = False"

fun truthy_number :: "number \<Rightarrow> bool" where
  "truthy_number (Fin q) = (q \<noteq> 0)"
| "truthy_number PosInfinity = True"
| "truthy_number NegInfinity = True"
| "truthy_number NaN = False"

subsection \<open>Numbers as text\<close>

definition digit :: "nat \<Rightarrow> char" where
  "digit d = ''0123456789'' ! d"

fun digits :: "nat \<Rightarrow> string" where
  "digits n = (if n < 10 then [digit n] else digits (n div 10) @ [digit (n mod 10)])"

declare digits.simps [simp del]

text \<open>
  \<^verbatim>\<open>Number::toString\<close> (ECMA-262, radix 10). For a positive finite \<open>q\<close> the standard asks
  for integers \<open>n\<close>, \<open>k\<close>, \<open>s\<close> with \<open>10 ^ (k - 1) \<le> s < 10 ^ k\<close>, such that
  \<open>s * 10 ^ (n - k)\<close> rounds to \<open>q\<close> and \<open>k\<close> is as small as possible, \<open>s\<close> closest to \<open>q\<close>.
  \<open>candidates q k n\<close> lists the \<open>s\<close> that qualify for given \<open>k\<close> and \<open>n\<close>; only the two
  integers around \<open>q / 10 ^ (n - k)\<close> can be closest.
\<close>

definition candidates :: "rat \<Rightarrow> nat \<Rightarrow> int \<Rightarrow> (int \<times> int) list" where
  "candidates q k n =
     (let p = 10 powi (n - int k); lo = \<lfloor>q / p\<rfloor>
      in map (\<lambda>s. (s, n))
           (filter (\<lambda>s. 10 ^ (k - 1) \<le> s \<and> s < 10 ^ k \<and> round_double (of_int s * p) = Fin q)
              [lo, lo + 1]))"

definition distance :: "rat \<Rightarrow> nat \<Rightarrow> int \<times> int \<Rightarrow> rat" where
  "distance q k c = \<bar>of_int (fst c) * 10 powi (snd c - int k) - q\<bar>"

fun closest :: "rat \<Rightarrow> nat \<Rightarrow> (int \<times> int) list \<Rightarrow> int \<times> int" where
  "closest q k [] = (0, 0)"
| "closest q k [c] = c"
| "closest q k (c # cs) =
     (let c' = closest q k cs
      in if distance q k c < distance q k c' \<or> (distance q k c = distance q k c' \<and> even (fst c))
         then c else c')"

fun shortest :: "rat \<Rightarrow> int \<Rightarrow> nat list \<Rightarrow> (nat \<times> int \<times> int) option" where
  "shortest q n0 [] = None"
| "shortest q n0 (k # ks) =
     (case candidates q k n0 @ candidates q k (n0 + 1) of
        [] \<Rightarrow> shortest q n0 ks
      | cs \<Rightarrow> Some (k, closest q k cs))"

definition zeros :: "nat \<Rightarrow> string" where
  "zeros n = replicate n CHR ''0''"

definition exponent_text :: "int \<Rightarrow> string" where
  "exponent_text e = (if 0 \<le> e then ''+'' else ''-'') @ digits (nat \<bar>e\<bar>)"

definition positive_text :: "rat \<Rightarrow> string" where
  "positive_text q =
     (case shortest q (ilog 10 q + 1) [1, 2, 3, 4, 5, 6, 7, 8, 9, 10, 11, 12, 13, 14, 15, 16, 17] of
        None \<Rightarrow> ''''
      | Some (k, s, n) \<Rightarrow>
          let ds = digits (nat s)
          in if int k \<le> n \<and> n \<le> 21 then ds @ zeros (nat (n - int k))
             else if 0 < n \<and> n \<le> 21 then take (nat n) ds @ ''.'' @ drop (nat n) ds
             else if - 6 < n \<and> n \<le> 0 then ''0.'' @ zeros (nat (- n)) @ ds
             else if k = 1 then ds @ ''e'' @ exponent_text (n - 1)
             else take 1 ds @ ''.'' @ drop 1 ds @ ''e'' @ exponent_text (n - 1))"

fun numberToString :: "number \<Rightarrow> string" where
  "numberToString NaN = ''NaN''"
| "numberToString PosInfinity = ''Infinity''"
| "numberToString NegInfinity = ''-Infinity''"
| "numberToString (Fin q) =
     (if q = 0 then ''0'' else if q < 0 then ''-'' @ positive_text (- q) else positive_text q)"

declare numberToString.simps [simp del]

text \<open>
  \<^verbatim>\<open>Number.prototype.toFixed(f)\<close> for \<open>f \<le> 100\<close> (the program calls it with 1 and 4 only;
  beyond 100 the platform raises a RangeError). The integer \<open>n\<close> is the one closest to
  \<open>x * 10 ^ f\<close>, the larger one on a tie.
\<close>

definition toFixed :: "nat \<Rightarrow> number \<Rightarrow> string" where
  "toFixed f x =
     (case x of
        Fin q \<Rightarrow>
          let s = (if q < 0 then ''-'' else ''''); y = \<bar>q\<bar>
          in if 10 ^ 21 \<le> y then s @ numberToString (Fin y)
             else
               let n = nat \<lfloor>y * 10 ^ f + 1 / 2\<rfloor>; m = digits n
               in if f \<noteq> 0
                  then
                    let m' = (if length m \<le> f then zeros (f + 1 - length m) @ m else m);
                        k = length m'
                    in s @ take (k - f) m' @ ''.'' @ drop (k - f) m'
                  else s @ m
      | _ \<Rightarrow> numberToString x)"

subsection \<open>Strings\<close>

text \<open>
  A string is the list of its code units; the degree sign of the templates is the single
  code unit \<open>0xB0\<close>. A string is true in a condition when it is not empty.
\<close>

definition newline :: string where
  "newline = [CHR 0x0A]"

definition degree :: string where
  "degree = [CHR 0xB0]"

definition truthy_string :: "string \<Rightarrow> bool" where
  "truthy_string s = (s \<noteq> [])"

text \<open>\<^verbatim>\<open>Array.prototype.join\<close> on an array of strings.\<close>

fun join :: "string \<Rightarrow> string list \<Rightarrow> string" where
  "join sep [] = []"
| "join sep [x] = x"
| "join sep (x # y # ys) = x @ sep @ join sep (y # ys)"

text \<open>
  \<^verbatim>\<open>s.replace(/c/g, r)\<close> for a single character \<open>c\<close> and a replacement text \<open>r\<close> without
  \<^verbatim>\<open>$\<close>: every occurrence of \<open>c\<close> is replaced.
\<close>

definition replace_all :: "char \<Rightarrow> string \<Rightarrow> string \<Rightarrow> string" where
  "replace_all c r s = concat (map (\<lambda>x. if x = c then r else [x]) s)"





section \<open>API client (class WeatherAPIClient)\<close>

subsection \<open>Requests, responses and failures\<close>

text \<open>
  A rejected promise or a thrown exception is a value: \<open>Error m\<close> is \<^verbatim>\<open>new Error(m)\<close>,
  \<open>TypeError m\<close> is what \<^verbatim>\<open>fetch\<close> rejects with when no response arrives, \<open>SyntaxError m\<close>
  is what \<^verbatim>\<open>response.json()\<close> rejects with when the body is not JSON.
\<close>

datatype js_error = Error string | TypeError string | SyntaxError string

record ApiError =
  error :: string
  message :: "string option"

text \<open>
  A response has its HTTP status and a body. The client reads the body with
  \<^verbatim>\<open>response.json()\<close> at one of two types: \<^verbatim>\<open>ApiError\<close> when the status is not 2xx, the
  type \<^verbatim>\<open>T\<close> of the caller otherwise. \<open>json_ApiError\<close> and \<open>json\<close> are the results of these two
  readings; each is \<open>Inl\<close> when the promise rejects. The field \<^verbatim>\<open>message\<close> of an error body
  is \<open>None\<close> when the server left it out.
\<close>

record 'a response =
  status :: nat
  json_ApiError :: "js_error + ApiError"
  json :: "js_error + 'a"

definition ok :: "'a response \<Rightarrow> bool" where
  "ok response = (200 \<le> status response \<and> status response \<le> 299)"

record request =
  http_method :: string
  url :: string
  headers :: "(string \<times> string) list"
  body :: "string option"

text \<open>
  The network is a function \<open>fetch\<close> that answers a request with a response or rejects.
\<close>

type_synonym 'a fetch = "request \<Rightarrow> js_error + 'a response"

text \<open>The payloads the client looks into; every other payload is a type variable.\<close>

record 'u AuthResponse =
  token :: string
  user :: 'u

record 'd ForecastData =
  forecast :: "'d list"
  timezone :: string

record ('c, 'd) CoordinatesWeather =
  current :: 'c
  forecast :: "'d list"

subsection \<open>Session store\<close>

text \<open>
  The state the client works on: its two private fields, whether the code runs in a
  browser (\<^verbatim>\<open>typeof window !== "undefined"\<close>), the browser's local storage, and the
  requests handed to \<^verbatim>\<open>fetch\<close> so far.
\<close>

record client =
  baseUrl :: string
  token :: "string option"
  window :: bool
  localStorage :: "string \<rightharpoonup> string"
  sent :: "request list"

definition API_BASE_URL :: "string option \<Rightarrow> string" where
  "API_BASE_URL NEXT_PUBLIC_API_URL =
     (case NEXT_PUBLIC_API_URL of
        None \<Rightarrow> ''http://localhost:8000/api/weather''
      | Some u \<Rightarrow> if truthy_string u then u else ''http://localhost:8000/api/weather'')"

definition WeatherAPIClient :: "string \<Rightarrow> bool \<Rightarrow> (string \<rightharpoonup> string) \<Rightarrow> client" where
  "WeatherAPIClient base w storage =
     \<lparr>baseUrl = base,
      token = (if w then storage ''auth_token'' else None),
      window = w,
      localStorage = storage,
      sent = []\<rparr>"

definition truthy_token :: "string option \<Rightarrow> bool" where
  "truthy_token t = (case t of None \<Rightarrow> False | Some s \<Rightarrow> truthy_string s)"

definition setToken :: "string option \<Rightarrow> client \<Rightarrow> client" where
  "setToken t c =
     (let c' = c\<lparr>token := t\<rparr>
      in if window c'
         then (case t of
                 Some s \<Rightarrow>
                   if truthy_string s
                   then c'\<lparr>localStorage := (localStorage c')(''auth_token'' \<mapsto> s)\<rparr>
                   else c'\<lparr>localStorage := (localStorage c')(''auth_token'' := None)\<rparr>
               | None \<Rightarrow> c'\<lparr>localStorage := (localStorage c')(''auth_token'' := None)\<rparr>)
         else c')"

definition getToken :: "client \<Rightarrow> string option" where
  "getToken c = token c"

definition isAuthenticated :: "client \<Rightarrow> bool" where
  "isAuthenticated c = (token c \<noteq> None)"

definition getAuthHeaders :: "client \<Rightarrow> (string \<times> string) list" where
  "getAuthHeaders c =
     [(''Content-Type'', ''application/json'')]
     @ (case token c of
          None \<Rightarrow> []
        | Some s \<Rightarrow> if truthy_string s then [(''Authorization'', ''Bearer '' @ s)] else [])"

subsection \<open>Response normalizer\<close>

definition handleResponse :: "'a response \<Rightarrow> js_error + 'a" where
  "handleResponse response =
     (if \<not> ok response
      then (case json_ApiError response of
              Inl e \<Rightarrow> Inl e
            | Inr err \<Rightarrow>
                Inl (Error (case message err of
                              None \<Rightarrow> ''An error occurred''
                            | Some m \<Rightarrow> if truthy_string m then m else ''An error occurred'')))
      else json response)"

text \<open>
  Every method but \<^verbatim>\<open>logout\<close> awaits \<^verbatim>\<open>fetch\<close> and passes the response to
  \<^verbatim>\<open>handleResponse\<close>; \<open>fetch_json\<close> is this pair of statements. The request is recorded
  whether or not it is answered.
\<close>

definition fetch_json :: "'a fetch \<Rightarrow> request \<Rightarrow> client \<Rightarrow> (js_error + 'a) \<times> client" where
  "fetch_json fetch req c =
     ((case fetch req of Inl e \<Rightarrow> Inl e | Inr response \<Rightarrow> handleResponse response),
      c\<lparr>sent := sent c @ [req]\<rparr>)"

definition GET :: "string \<Rightarrow> request" where
  "GET u = \<lparr>http_method = ''GET'', url = u, headers = [], body = None\<rparr>"

text \<open>
  A parameter with a default value: \<open>parameter d x\<close> is the argument \<open>x\<close> when it is given
  and \<open>d\<close> when it is left out.
\<close>

definition parameter :: "number \<Rightarrow> number option \<Rightarrow> number" where
  "parameter d x = (case x of None \<Rightarrow> d | Some v \<Rightarrow> v)"

subsection \<open>Lookup\<close>


definition getCurrentWeather ::
  "'c fetch \<Rightarrow> number \<Rightarrow> number \<Rightarrow> client \<Rightarrow> (js_error + 'c) \<times> client" where
  "getCurrentWeather fetch lat lon c =
     fetch_json fetch
       (GET (baseUrl c @ ''/current?lat='' @ numberToString lat @ ''&lon='' @ numberToString lon))
       c"

definition getForecast ::
  "'d ForecastData fetch \<Rightarrow> number \<Rightarrow> number \<Rightarrow> number option \<Rightarrow> client
     \<Rightarrow> (js_error + 'd ForecastData) \<times> client" where
  "getForecast fetch lat lon days c =
     fetch_json fetch
       (GET (baseUrl c @ ''/forecast?lat='' @ numberToString lat @ ''&lon='' @ numberToString lon
             @ ''&days='' @ numberToString (parameter (Fin 7) days)))
       c"



text \<open>
  \<^verbatim>\<open>Promise.all\<close> of two promises: both values when both are fulfilled, otherwise the
  reason of the promise that rejects first. Which of two rejections comes first is decided
  by the network; \<open>second_first\<close> says that it is the second promise's.
\<close>

definition Promise_all :: "bool \<Rightarrow> js_error + 'a \<Rightarrow> js_error + 'b \<Rightarrow> js_error + 'a \<times> 'b" where
  "Promise_all second_first p1 p2 =
     (case p1 of
        Inr v1 \<Rightarrow> (case p2 of Inr v2 \<Rightarrow> Inr (v1, v2) | Inl e2 \<Rightarrow> Inl e2)
      | Inl e1 \<Rightarrow> (case p2 of Inr v2 \<Rightarrow> Inl e1 | Inl e2 \<Rightarrow> Inl (if second_first then e2 else e1)))"

text \<open>
  Both calls are started, in this order, before either is awaited: each sends its request
  at once. The two legs read their responses at different types, hence the two views
  \<open>fetch1\<close> and \<open>fetch2\<close> of the network.
\<close>

definition getWeatherByCoordinates ::
  "'c fetch \<Rightarrow> 'd ForecastData fetch \<Rightarrow> bool \<Rightarrow> number \<Rightarrow> number \<Rightarrow> number option \<Rightarrow> client
     \<Rightarrow> (js_error + ('c, 'd) CoordinatesWeather) \<times> client" where
  "getWeatherByCoordinates fetch1 fetch2 second_first lat lon days c =
     (let (p1, c1) = getCurrentWeather fetch1 lat lon c;
          (p2, c2) = getForecast fetch2 lat lon (Some (parameter (Fin 7) days)) c1
      in ((case Promise_all second_first p1 p2 of
             Inl e \<Rightarrow> Inl e
           | Inr (cur, forecastData) \<Rightarrow>
               Inr \<lparr>current = cur, forecast = ForecastData.forecast forecastData\<rparr>),
          c2))"

subsection \<open>Authentication\<close>

text \<open>\<open>stringify\<close> is \<^verbatim>\<open>JSON.stringify\<close> at the type of the payload.\<close>

definition POST_json :: "string \<Rightarrow> (string \<times> string) list \<Rightarrow> string \<Rightarrow> request" where
  "POST_json u hs b = \<lparr>http_method = ''POST'', url = u, headers = hs, body = Some b\<rparr>"

definition signup ::
  "('p \<Rightarrow> string) \<Rightarrow> 'u AuthResponse fetch \<Rightarrow> 'p \<Rightarrow> client
     \<Rightarrow> (js_error + 'u AuthResponse) \<times> client" where
  "signup stringify fetch payload c =
     (let (r, c1) =
            fetch_json fetch
              (POST_json (baseUrl c @ ''/auth/signup'')
                 [(''Content-Type'', ''application/json'')] (stringify payload)) c
      in case r of
           Inl e \<Rightarrow> (Inl e, c1)
         | Inr data \<Rightarrow> (Inr data, setToken (Some (AuthResponse.token data)) c1))"

definition login ::
  "('p \<Rightarrow> string) \<Rightarrow> 'u AuthResponse fetch \<Rightarrow> 'p \<Rightarrow> client
     \<Rightarrow> (js_error + 'u AuthResponse) \<times> client" where
  "login stringify fetch payload c =
     (let (r, c1) =
            fetch_json fetch
              (POST_json (baseUrl c @ ''/auth/login'')
                 [(''Content-Type'', ''application/json'')] (stringify payload)) c
      in case r of
           Inl e \<Rightarrow> (Inl e, c1)
         | Inr data \<Rightarrow> (Inr data, setToken (Some (AuthResponse.token data)) c1))"

definition logout_request :: "client \<Rightarrow> request" where
  "logout_request c =
     \<lparr>http_method = ''POST'', url = baseUrl c @ ''/auth/logout'', headers = getAuthHeaders c,
      body = None\<rparr>"

definition logout :: "'a fetch \<Rightarrow> client \<Rightarrow> (js_error + unit) \<times> client" where
  "logout fetch c =
     (if truthy_token (token c)
      then (case fetch (logout_request c) of
              Inl e \<Rightarrow> (Inl e, c\<lparr>sent := sent c @ [logout_request c]\<rparr>)
            | Inr response \<Rightarrow> (Inr (), setToken None (c\<lparr>sent := sent c @ [logout_request c]\<rparr>)))
      else (Inr (), setToken None c))"


subsection \<open>Validation and CRUD\<close>








section \<open>Export formatters (export-utils.ts)\<close>

record WeatherDataItem =
  date :: string
  temperature_max :: number
  temperature_min :: number
  temperature_mean :: "number option"
  feels_like_max :: number
  feels_like_min :: number
  precipitation :: number
  rain :: number
  weather_code :: number
  weather_description :: string
  wind_speed_max :: number
  wind_direction :: number

record WeatherRequest =
  request_id :: number
  location_name :: string
  country :: string
  latitude :: number
  longitude :: number
  timezone :: string
  start_date :: string
  end_date :: string
  weather_data :: "WeatherDataItem list"
  request_notes :: string
  created_at :: string
  updated_at :: string

text \<open>
  \<^verbatim>\<open>downloadFile(content, filename, mimeType)\<close> hands a file to the browser; an export is
  modelled by the file it hands over.
\<close>

record download =
  content :: string
  filename :: string
  mimeType :: string

definition download_name :: "WeatherRequest \<Rightarrow> string \<Rightarrow> string" where
  "download_name request ext =
     ''weather-data-'' @ location_name request @ ''-'' @ start_date request @ ''_''
       @ end_date request @ ext"

definition escapeXml :: "string \<Rightarrow> string" where
  "escapeXml unsafe =
     replace_all (CHR 0x27) ''&apos;''
       (replace_all (CHR 0x22) ''&quot;''
          (replace_all CHR ''>'' ''&gt;''
             (replace_all CHR ''<'' ''&lt;''
                (replace_all CHR ''&'' ''&amp;'' unsafe))))"

definition xml_day :: "WeatherDataItem \<Rightarrow> string" where
  "xml_day day = join newline
     [''    <day>'',
      ''      <date>'' @ date day @ ''</date>'',
      ''      <temperatureMax>'' @ numberToString (temperature_max day) @ ''</temperatureMax>'',
      ''      <temperatureMin>'' @ numberToString (temperature_min day) @ ''</temperatureMin>'',
      ''      '' @
        (case temperature_mean day of
           None \<Rightarrow> []
         | Some mean \<Rightarrow>
             if truthy_number mean
             then ''<temperatureMean>'' @ numberToString mean @ ''</temperatureMean>''
             else []),
      ''      <feelsLikeMax>'' @ numberToString (feels_like_max day) @ ''</feelsLikeMax>'',
      ''      <feelsLikeMin>'' @ numberToString (feels_like_min day) @ ''</feelsLikeMin>'',
      ''      <precipitation>'' @ numberToString (precipitation day) @ ''</precipitation>'',
      ''      <rain>'' @ numberToString (rain day) @ ''</rain>'',
      ''      <weatherCode>'' @ numberToString (weather_code day) @ ''</weatherCode>'',
      ''      <weatherDescription>'' @ escapeXml (weather_description day)
        @ ''</weatherDescription>'',
      ''      <windSpeedMax>'' @ numberToString (wind_speed_max day) @ ''</windSpeedMax>'',
      ''      <windDirection>'' @ numberToString (wind_direction day) @ ''</windDirection>'',
      ''    </day>'']"

definition exportAsXML :: "WeatherRequest \<Rightarrow> download" where
  \<open>exportAsXML request =
     \<lparr>content = join newline
        [''<?xml version="1.0" encoding="UTF-8"?>'',
         ''<WeatherRequest>'',
         ''  <id>'' @ numberToString (request_id request) @ ''</id>'',
         ''  <location>'',
         ''    <name>'' @ escapeXml (location_name request) @ ''</name>'',
         ''    <country>'' @ escapeXml (country request) @ ''</country>'',
         ''    <latitude>'' @ numberToString (latitude request) @ ''</latitude>'',
         ''    <longitude>'' @ numberToString (longitude request) @ ''</longitude>'',
         ''    <timezone>'' @ escapeXml (timezone request) @ ''</timezone>'',
         ''  </location>'',
         ''  <dateRange>'',
         ''    <startDate>'' @ start_date request @ ''</startDate>'',
         ''    <endDate>'' @ end_date request @ ''</endDate>'',
         ''  </dateRange>'',
         ''  <notes>''
           @ escapeXml (if truthy_string (request_notes request) then request_notes request else [])
           @ ''</notes>'',
         ''  <weatherData>'',
         join newline (map xml_day (weather_data request)),
         ''  </weatherData>'',
         ''  <metadata>'',
         ''    <createdAt>'' @ created_at request @ ''</createdAt>'',
         ''    <updatedAt>'' @ updated_at request @ ''</updatedAt>'',
         ''  </metadata>'',
         ''</WeatherRequest>''],
      filename = download_name request ''.xml'',
      mimeType = ''application/xml''\<rparr>\<close>

definition csv_headers :: "string list" where
  "csv_headers =
     [''Date'',
      ''Temperature Max ('' @ degree @ ''C)'',
      ''Temperature Min ('' @ degree @ ''C)'',
      ''Temperature Mean ('' @ degree @ ''C)'',
      ''Feels Like Max ('' @ degree @ ''C)'',
      ''Feels Like Min ('' @ degree @ ''C)'',
      ''Precipitation (mm)'',
      ''Rain (mm)'',
      ''Weather Code'',
      ''Weather Description'',
      ''Wind Speed Max (km/h)'',
      ''Wind Direction ('' @ degree @ '')'']"

text \<open>One row of the CSV; \<^verbatim>\<open>row.join(",")\<close> turns its numbers into text.\<close>

definition csv_row :: "WeatherDataItem \<Rightarrow> string list" where
  \<open>csv_row day =
     [date day,
      numberToString (temperature_max day),
      numberToString (temperature_min day),
      (case temperature_mean day of
         None \<Rightarrow> []
       | Some mean \<Rightarrow> if truthy_number mean then numberToString mean else []),
      numberToString (feels_like_max day),
      numberToString (feels_like_min day),
      numberToString (precipitation day),
      numberToString (rain day),
      numberToString (weather_code day),
      ''"'' @ weather_description day @ ''"'',
      numberToString (wind_speed_max day),
      numberToString (wind_direction day)]\<close>

definition csv_metadata :: "WeatherRequest \<Rightarrow> string" where
  "csv_metadata request =
     join newline
       (filter truthy_string
          [''# Weather Data for '' @ location_name request @ '', '' @ country request,
           ''# Date Range: '' @ start_date request @ '' to '' @ end_date request,
           ''# Location: '' @ numberToString (latitude request) @ '', ''
             @ numberToString (longitude request),
           ''# Timezone: '' @ timezone request,
           (if truthy_string (request_notes request) then ''# Notes: '' @ request_notes request else []),
           []])"

definition exportAsCSV :: "WeatherRequest \<Rightarrow> download" where
  "exportAsCSV request =
     \<lparr>content =
        csv_metadata request @ join '','' csv_headers @ newline
          @ join newline (map (\<lambda>day. join '','' (csv_row day)) (weather_data request)),
      filename = download_name request ''.csv'',
      mimeType = ''text/csv''\<rparr>"

text \<open>
  \<^verbatim>\<open>request.weather_data.reduce((sum, d) => sum + d.field, 0)\<close> and
  \<^verbatim>\<open>request.weather_data.length\<close>.
\<close>

definition reduce_sum :: "(WeatherDataItem \<Rightarrow> number) \<Rightarrow> WeatherDataItem list \<Rightarrow> number" where
  "reduce_sum field ds = foldl (\<lambda>sum d. js_add sum (field d)) (Fin 0) ds"

definition array_length :: "'a list \<Rightarrow> number" where
  "array_length xs = Fin (of_nat (length xs))"

definition markdown_row :: "WeatherDataItem \<Rightarrow> string" where
  "markdown_row day =
     ''| '' @ date day
     @ '' | '' @ numberToString (temperature_max day) @ degree @ ''C''
     @ '' | '' @ numberToString (temperature_min day) @ degree @ ''C''
     @ '' | '' @
       (case temperature_mean day of
          None \<Rightarrow> ''N/A''
        | Some mean \<Rightarrow>
            if truthy_number mean then numberToString mean @ degree @ ''C'' else ''N/A'')
     @ '' | '' @ numberToString (feels_like_max day) @ degree @ ''C''
     @ '' | '' @ numberToString (feels_like_min day) @ degree @ ''C''
     @ '' | '' @ numberToString (precipitation day) @ ''mm''
     @ '' | '' @ numberToString (rain day) @ ''mm''
     @ '' | '' @ weather_description day
     @ '' | '' @ numberToString (wind_speed_max day) @ ''km/h''
     @ '' | '' @ numberToString (wind_direction day) @ degree @ '' |''"

text \<open>The five lines under the heading \<^verbatim>\<open>## Statistics\<close>.\<close>

definition markdown_statistics :: "WeatherDataItem list \<Rightarrow> string list" where
  "markdown_statistics ds =
     [''- **Average Max Temperature:** ''
        @ toFixed 1 (js_div (reduce_sum temperature_max ds) (array_length ds)) @ degree @ ''C'',
      ''- **Average Min Temperature:** ''
        @ toFixed 1 (js_div (reduce_sum temperature_min ds) (array_length ds)) @ degree @ ''C'',
      ''- **Total Precipitation:** '' @ toFixed 1 (reduce_sum precipitation ds) @ ''mm'',
      ''- **Total Rain:** '' @ toFixed 1 (reduce_sum rain ds) @ ''mm'',
      ''- **Average Wind Speed:** ''
        @ toFixed 1 (js_div (reduce_sum wind_speed_max ds) (array_length ds)) @ ''km/h'']"

text \<open>
  \<open>now\<close> is the text of \<^verbatim>\<open>new Date().toLocaleString()\<close> at the time of the export.
\<close>

definition exportAsMarkdown :: "string \<Rightarrow> WeatherRequest \<Rightarrow> download" where
  "exportAsMarkdown now request =
     \<lparr>content = join newline
        ([''# Weather Data Report'',
          [],
          ''## Location Information'',
          ''- **Location:** '' @ location_name request @ '', '' @ country request,
          ''- **Coordinates:** '' @ numberToString (latitude request) @ '', ''
            @ numberToString (longitude request),
          ''- **Timezone:** '' @ timezone request,
          [],
          ''## Date Range'',
          ''- **Start Date:** '' @ start_date request,
          ''- **End Date:** '' @ end_date request,
          ''- **Duration:** '' @ numberToString (array_length (weather_data request)) @ '' days'',
          [],
          (if truthy_string (request_notes request)
           then ''## Notes'' @ newline @ request_notes request @ newline else []),
          ''## Weather Data'',
          [],
          ''| Date | Temp Max | Temp Min | Temp Mean | Feels Like Max | Feels Like Min | Precipitation | Rain | Weather | Wind Speed | Wind Dir |'',
          ''|------|----------|----------|-----------|----------------|----------------|---------------|------|---------|------------|----------|'',
          join newline (map markdown_row (weather_data request)),
          [],
          ''## Statistics'',
          []]
         @ markdown_statistics (weather_data request)
         @ [[],
            ''---'',
            ''*Generated on '' @ now @ ''*'',
            ''*Request ID: '' @ numberToString (request_id request) @ ''*'',
            []]),
      filename = download_name request ''.md'',
      mimeType = ''text/markdown''\<rparr>"

section \<open>Geolocation utilities (geolocation.ts)\<close>

definition formatCoordinates :: "number \<Rightarrow> number \<Rightarrow> string" where
  "formatCoordinates lat lon =
     (let latDir = (if ge_zero lat then ''N'' else ''S'');
          lonDir = (if ge_zero lon then ''E'' else ''W'')
      in toFixed 4 (Math_abs lat) @ degree @ latDir @ '', ''
         @ toFixed 4 (Math_abs lon) @ degree @ lonDir)"

section \<open>Sample values\<close>

definition browser_client :: "string option \<Rightarrow> client" where
  "browser_client t =
     \<lparr>baseUrl = ''http://localhost:8000/api/weather'', token = t, window = True,
      localStorage = (case t of None \<Rightarrow> Map.empty | Some s \<Rightarrow> [''auth_token'' \<mapsto> s]),
      sent = []\<rparr>"

definition server_error :: "unit response" where
  "server_error =
     \<lparr>status = 500,
      json_ApiError = Inr \<lparr>error = ''server_error'', message = Some ''Internal error''\<rparr>,
      json = Inl (SyntaxError ''Unexpected token'')\<rparr>"

definition bad_request :: "'a response" where
  "bad_request =
     \<lparr>status = 400,
      json_ApiError = Inr \<lparr>error = ''bad_request'', message = Some ''Invalid date range''\<rparr>,
      json = Inl (SyntaxError ''not read'')\<rparr>"


definition auth_ok :: "string AuthResponse response" where
  "auth_ok =
     \<lparr>status = 200,
      json_ApiError = Inl (SyntaxError ''not read''),
      json = Inr \<lparr>AuthResponse.token = ''t0k3n'', user = ''alice''\<rparr>\<rparr>"

definition stringify_any :: "string \<Rightarrow> string" where
  "stringify_any payload = payload"

definition current_ok :: "string response" where
  "current_ok =
     \<lparr>status = 200, json_ApiError = Inl (SyntaxError ''not read''), json = Inr ''sunny''\<rparr>"

definition forecast_ok :: "string ForecastData response" where
  "forecast_ok =
     \<lparr>status = 200,
      json_ApiError = Inl (SyntaxError ''not read''),
      json = Inr \<lparr>ForecastData.forecast = [''mon'', ''tue''], ForecastData.timezone = ''UTC''\<rparr>\<rparr>"

text \<open>The entity that stands for a character in XML text, by the words of the specification.\<close>

definition xml_entity :: "char \<Rightarrow> string" where
  "xml_entity ch =
     (if ch = CHR ''&'' then ''&amp;''
      else if ch = CHR ''<'' then ''&lt;''
      else if ch = CHR ''>'' then ''&gt;''
      else if ch = CHR 0x22 then ''&quot;''
      else if ch = CHR 0x27 then ''&apos;''
      else [ch])"

definition day_one :: WeatherDataItem where
  "day_one =
     \<lparr>date = ''2024-06-01'', temperature_max = Fin 20, temperature_min = Fin 10,
      temperature_mean = Some (Fin 15), feels_like_max = Fin 19, feels_like_min = Fin 9,
      precipitation = Fin 0, rain = Fin 0, weather_code = Fin 3,
      weather_description = ''Overcast'', wind_speed_max = Fin 5, wind_direction = Fin 45\<rparr>"

definition day_two :: WeatherDataItem where
  \<open>day_two =
     \<lparr>date = ''2024-06-02'', temperature_max = Fin 22, temperature_min = Fin 12,
      temperature_mean = None, feels_like_max = Fin 23, feels_like_min = Fin 13,
      precipitation = Fin 2, rain = Fin 2, weather_code = Fin 61,
      weather_description = ''Rain & "wind"'', wind_speed_max = Fin 7, wind_direction = Fin 90\<rparr>\<close>

definition sample_request :: WeatherRequest where
  "sample_request =
     \<lparr>request_id = Fin 42, location_name = ''Paris'', country = ''France'',
      latitude = Fin 48, longitude = Fin 2, timezone = ''Europe/Paris'',
      start_date = ''2024-06-01'', end_date = ''2024-06-02'',
      weather_data = [day_one, day_two], request_notes = ''A & B <C>'',
      created_at = ''2024-06-03T08:00:00Z'', updated_at = ''2024-06-03T08:00:00Z''\<rparr>"

text \<open>
  A non-negative number to \<open>f\<close> decimal places, by the words of the specification: the digits
  of the integer part, a point, and exactly \<open>f\<close> digits, the number being rounded to the
  nearest multiple of \<open>10 ^ - f\<close> (upwards from the middle).
\<close>

fun fixed_width :: "nat \<Rightarrow> nat \<Rightarrow> string" where
  "fixed_width 0 n = []"
| "fixed_width (Suc k) n = fixed_width k (n div 10) @ [digit (n mod 10)]"

definition decimal_places :: "nat \<Rightarrow> rat \<Rightarrow> string" where
  "decimal_places f y =
     (let n = nat \<lfloor>y * 10 ^ f + 1 / 2\<rfloor>
      in digits (n div 10 ^ f) @ ''.'' @ fixed_width f (n mod 10 ^ f))"

section \<open>Properties of the session store\<close>

lemma setToken_token: "token (setToken t c) = t"
  by (simp add: setToken_def Let_def split: option.splits)

lemma setToken_sent: "sent (setToken t c) = sent c"
  by (simp add: setToken_def Let_def split: option.splits)

lemma setToken_storage:
  "localStorage (setToken t c) =
     (if window c
      then (localStorage c)(''auth_token'' := (if truthy_token t then t else None))
      else localStorage c)"
  by (simp add: setToken_def Let_def truthy_token_def split: option.splits)

text \<open>
  Claim C5, as the code has it. After \<^verbatim>\<open>setToken(T)\<close>, \<^verbatim>\<open>getToken()\<close> returns \<open>T\<close> for
  every \<open>T\<close>. In a browser the key \<^verbatim>\<open>auth_token\<close> then holds \<open>T\<close> when \<open>T\<close> is a non-empty
  string and is removed when \<open>T\<close> is null or the empty string, so memory and storage agree
  for every \<open>T\<close> but the empty string; no other key changes, and without a window the
  storage is not touched. After \<^verbatim>\<open>setToken(null)\<close>, \<^verbatim>\<open>isAuthenticated()\<close> is false;
  \<^verbatim>\<open>isAuthenticated()\<close> is \<^verbatim>\<open>token !== null\<close>, and neither operation sends a request.
\<close>

theorem C5_session_store:
  "getToken (setToken t c) = t
   \<and> (window c \<longrightarrow>
        localStorage (setToken t c) ''auth_token'' = (if truthy_token t then t else None))
   \<and> (window c \<and> t \<noteq> Some [] \<longrightarrow>
        localStorage (setToken t c) ''auth_token'' = getToken (setToken t c))
   \<and> (\<forall>k. k \<noteq> ''auth_token'' \<longrightarrow> localStorage (setToken t c) k = localStorage c k)
   \<and> (\<not> window c \<longrightarrow> localStorage (setToken t c) = localStorage c)
   \<and> \<not> isAuthenticated (setToken None c)
   \<and> isAuthenticated c = (getToken c \<noteq> None)
   \<and> sent (setToken t c) = sent c"
  by (cases t)
     (simp_all add: getToken_def isAuthenticated_def setToken_token setToken_storage
        setToken_sent truthy_token_def truthy_string_def)

theorem C5_session_store_witness:
  "getToken (setToken (Some ''abc'') (browser_client None)) = Some ''abc''
   \<and> localStorage (setToken (Some ''abc'') (browser_client None)) ''auth_token'' = Some ''abc''
   \<and> localStorage (setToken None (browser_client (Some ''abc''))) ''auth_token'' = None
   \<and> \<not> isAuthenticated (setToken None (browser_client (Some ''abc'')))"
  using C5_session_store [of "Some ''abc''" "browser_client None"]
    C5_session_store [of None "browser_client (Some ''abc'')"]
  by (simp add: browser_client_def truthy_token_def truthy_string_def)

text \<open>
  The claim as stated fails at the empty string: it is a non-null token, \<^verbatim>\<open>getToken()\<close>
  returns it and \<^verbatim>\<open>isAuthenticated()\<close> is true, but the key is removed from the storage.
\<close>

theorem C5_empty_token_counterexample:
  "getToken (setToken (Some []) (browser_client (Some ''abc''))) = Some []
   \<and> localStorage (setToken (Some []) (browser_client (Some ''abc''))) ''auth_token'' = None
   \<and> isAuthenticated (setToken (Some []) (browser_client (Some ''abc'')))"
  by (simp add: getToken_def isAuthenticated_def setToken_def browser_client_def Let_def
      truthy_string_def)

section \<open>Properties of logout\<close>

lemma logout_resolved:
  "truthy_token (token c) \<Longrightarrow> fetch (logout_request c) = Inr response \<Longrightarrow>
     logout fetch c = (Inr (), setToken None (c\<lparr>sent := sent c @ [logout_request c]\<rparr>))"
  by (simp add: logout_def)

lemma logout_rejected:
  "truthy_token (token c) \<Longrightarrow> fetch (logout_request c) = Inl e \<Longrightarrow>
     logout fetch c = (Inl e, c\<lparr>sent := sent c @ [logout_request c]\<rparr>)"
  by (simp add: logout_def)

lemma logout_no_token:
  "\<not> truthy_token (token c) \<Longrightarrow> logout fetch c = (Inr (), setToken None c)"
  by (simp add: logout_def)

text \<open>
  Claim C10. When \<^verbatim>\<open>logout()\<close> is called with a token and the server answers, whatever
  the status of the response, \<^verbatim>\<open>logout\<close> completes normally and the token is cleared, in
  memory and in the storage: the response is never inspected.
\<close>

theorem C10_logout_ignores_status:
  assumes "truthy_token (token c)" and "fetch (logout_request c) = Inr response"
  shows "fst (logout fetch c) = Inr ()
         \<and> getToken (snd (logout fetch c)) = None
         \<and> \<not> isAuthenticated (snd (logout fetch c))
         \<and> (window c \<longrightarrow> localStorage (snd (logout fetch c)) ''auth_token'' = None)
         \<and> sent (snd (logout fetch c)) = sent c @ [logout_request c]"
  using assms logout_resolved [of c fetch response]
  by (simp add: getToken_def isAuthenticated_def setToken_token setToken_storage
      setToken_sent truthy_token_def)

theorem C10_logout_ignores_status_witness:
  "truthy_token (token (browser_client (Some ''abc'')))
   \<and> \<not> ok server_error
   \<and> fst (logout (\<lambda>r. Inr server_error) (browser_client (Some ''abc''))) = Inr ()
   \<and> getToken (snd (logout (\<lambda>r. Inr server_error) (browser_client (Some ''abc'')))) = None
   \<and> localStorage (snd (logout (\<lambda>r. Inr server_error) (browser_client (Some ''abc''))))
        ''auth_token'' = None"
proof -
  have t: "truthy_token (token (browser_client (Some ''abc'')))"
    by (simp add: browser_client_def truthy_token_def truthy_string_def)
  have f: "(\<lambda>r. Inr server_error) (logout_request (browser_client (Some ''abc'')))
             = Inr server_error"
    by simp
  have w: "window (browser_client (Some ''abc''))"
    by (simp add: browser_client_def)
  have "\<not> ok server_error"
    by (simp add: ok_def server_error_def)
  then show ?thesis
    using t w f
      C10_logout_ignores_status
        [of "browser_client (Some ''abc'')" "\<lambda>r. Inr server_error" server_error]
    by simp
qed

text \<open>
  Claim C1, as the code has it. With a non-empty token, \<^verbatim>\<open>logout()\<close> sends one POST to
  \<^verbatim>\<open>/auth/logout\<close> carrying the current auth header; without one it sends nothing, clears
  the session and completes. When the request is answered, \<^verbatim>\<open>logout()\<close> completes and
  the token is cleared. When \<^verbatim>\<open>fetch\<close> rejects, \<^verbatim>\<open>logout()\<close> rejects with the same
  reason and the token stays as it was, in memory and in the storage.
\<close>

theorem C1_logout:
  "(truthy_token (token c) \<longrightarrow>
      sent (snd (logout fetch c)) = sent c @ [logout_request c]
      \<and> http_method (logout_request c) = ''POST''
      \<and> url (logout_request c) = baseUrl c @ ''/auth/logout''
      \<and> headers (logout_request c) = getAuthHeaders c
      \<and> (''Authorization'', ''Bearer '' @ the (token c)) \<in> set (getAuthHeaders c))
   \<and> (\<not> truthy_token (token c) \<longrightarrow>
      sent (snd (logout fetch c)) = sent c
      \<and> fst (logout fetch c) = Inr () \<and> getToken (snd (logout fetch c)) = None)
   \<and> (\<forall>response. truthy_token (token c) \<and> fetch (logout_request c) = Inr response \<longrightarrow>
      fst (logout fetch c) = Inr () \<and> getToken (snd (logout fetch c)) = None
      \<and> (window c \<longrightarrow> localStorage (snd (logout fetch c)) ''auth_token'' = None))
   \<and> (\<forall>e. truthy_token (token c) \<and> fetch (logout_request c) = Inl e \<longrightarrow>
      fst (logout fetch c) = Inl e \<and> getToken (snd (logout fetch c)) = getToken c
      \<and> localStorage (snd (logout fetch c)) = localStorage c)"
proof (cases "truthy_token (token c)")
  case False
  then show ?thesis
    by (simp add: logout_no_token getToken_def setToken_token setToken_sent)
next
  case True
  then obtain s where s: "token c = Some s" "s \<noteq> []"
    by (auto simp: truthy_token_def truthy_string_def split: option.splits)
  have req: "sent (snd (logout fetch c)) = sent c @ [logout_request c]"
    using True by (cases "fetch (logout_request c)") (simp_all add: logout_def setToken_sent)
  have hdr: "(''Authorization'', ''Bearer '' @ the (token c)) \<in> set (getAuthHeaders c)"
    using s by (simp add: getAuthHeaders_def truthy_string_def)
  show ?thesis
    using True req hdr
    by (auto simp: logout_resolved logout_rejected getToken_def setToken_token
        setToken_storage logout_request_def truthy_token_def)
qed

theorem C1_logout_witness:
  "truthy_token (token (browser_client (Some ''abc'')))
   \<and> sent (snd (logout (\<lambda>r. Inr server_error) (browser_client (Some ''abc''))))
       = [\<lparr>http_method = ''POST'', url = ''http://localhost:8000/api/weather/auth/logout'',
           headers = [(''Content-Type'', ''application/json''),
                      (''Authorization'', ''Bearer abc'')],
           body = None\<rparr>]
   \<and> fst (logout (\<lambda>r. Inr server_error) (browser_client (Some ''abc''))) = Inr ()
   \<and> getToken (snd (logout (\<lambda>r. Inr server_error) (browser_client (Some ''abc'')))) = None
   \<and> \<not> truthy_token (token (browser_client None))
   \<and> sent (snd (logout (\<lambda>r. Inr server_error) (browser_client None))) = []"
proof -
  have t: "truthy_token (token (browser_client (Some ''abc'')))"
    by (simp add: browser_client_def truthy_token_def truthy_string_def)
  have n: "\<not> truthy_token (token (browser_client None))"
    by (simp add: browser_client_def truthy_token_def)
  have r: "logout_request (browser_client (Some ''abc'')) =
            \<lparr>http_method = ''POST'', url = ''http://localhost:8000/api/weather/auth/logout'',
             headers = [(''Content-Type'', ''application/json''),
                        (''Authorization'', ''Bearer abc'')],
             body = None\<rparr>"
    by (simp add: logout_request_def getAuthHeaders_def browser_client_def truthy_string_def)
  have e: "sent (browser_client (Some ''abc'')) = []" "sent (browser_client None) = []"
    by (simp_all add: browser_client_def)
  show ?thesis
    using t n e C1_logout [of "browser_client (Some ''abc'')" "\<lambda>r. Inr server_error"]
      C1_logout [of "browser_client None" "\<lambda>r. Inr server_error"]
    by (simp add: r)
qed

text \<open>
  The claim as stated fails when \<^verbatim>\<open>fetch\<close> rejects: \<^verbatim>\<open>logout()\<close> rejects too, and the
  token is still there. It also fails for the empty string as token, for which
  \<^verbatim>\<open>isAuthenticated()\<close> is true and no request is sent.
\<close>

theorem C1_logout_counterexample:
  "fst (logout (\<lambda>r. Inl (TypeError ''Failed to fetch'') :: js_error + unit response)
          (browser_client (Some ''abc'')))
     = Inl (TypeError ''Failed to fetch'')
   \<and> getToken (snd (logout (\<lambda>r. Inl (TypeError ''Failed to fetch'') :: js_error + unit response)
          (browser_client (Some ''abc'')))) = Some ''abc''
   \<and> localStorage (snd (logout (\<lambda>r. Inl (TypeError ''Failed to fetch'') :: js_error + unit response)
          (browser_client (Some ''abc'')))) ''auth_token'' = Some ''abc''
   \<and> isAuthenticated (browser_client (Some []))
   \<and> sent (snd (logout (\<lambda>r. Inr server_error) (browser_client (Some [])))) = []"
  by (simp add: logout_def browser_client_def truthy_token_def truthy_string_def getToken_def
      isAuthenticated_def setToken_sent)

section \<open>Properties of the response normalizer\<close>










section \<open>Properties of signup and login\<close>

lemma fetch_json_sent: "snd (fetch_json fetch req c) = c\<lparr>sent := sent c @ [req]\<rparr>"
  by (simp add: fetch_json_def)

lemma fetch_json_ok:
  "fetch req = Inr response \<Longrightarrow> ok response \<Longrightarrow>
     fst (fetch_json fetch req c) = json response"
  by (simp add: fetch_json_def handleResponse_def)

lemma signup_cases:
  "signup stringify fetch payload c =
     (case fst (fetch_json fetch
                  (POST_json (baseUrl c @ ''/auth/signup'')
                     [(''Content-Type'', ''application/json'')] (stringify payload)) c) of
        Inl e \<Rightarrow>
          (Inl e,
           c\<lparr>sent := sent c @ [POST_json (baseUrl c @ ''/auth/signup'')
                                  [(''Content-Type'', ''application/json'')] (stringify payload)]\<rparr>)
      | Inr data \<Rightarrow>
          (Inr data,
           setToken (Some (AuthResponse.token data))
             (c\<lparr>sent := sent c @ [POST_json (baseUrl c @ ''/auth/signup'')
                                    [(''Content-Type'', ''application/json'')] (stringify payload)]\<rparr>)))"
  by (simp add: signup_def fetch_json_def split: sum.splits)

lemma login_cases:
  "login stringify fetch payload c =
     (case fst (fetch_json fetch
                  (POST_json (baseUrl c @ ''/auth/login'')
                     [(''Content-Type'', ''application/json'')] (stringify payload)) c) of
        Inl e \<Rightarrow>
          (Inl e,
           c\<lparr>sent := sent c @ [POST_json (baseUrl c @ ''/auth/login'')
                                  [(''Content-Type'', ''application/json'')] (stringify payload)]\<rparr>)
      | Inr data \<Rightarrow>
          (Inr data,
           setToken (Some (AuthResponse.token data))
             (c\<lparr>sent := sent c @ [POST_json (baseUrl c @ ''/auth/login'')
                                    [(''Content-Type'', ''application/json'')] (stringify payload)]\<rparr>)))"
  by (simp add: login_def fetch_json_def split: sum.splits)

text \<open>
  Claim C6. When \<^verbatim>\<open>signup\<close> or \<^verbatim>\<open>login\<close> succeeds, the value returned is the whole parsed
  response \<^verbatim>\<open>{token, user}\<close> (it does succeed when the request is answered with a 2xx
  response whose body parses), and the state it leaves is the one \<^verbatim>\<open>setToken\<close> makes with
  the token of that response, so \<^verbatim>\<open>getToken()\<close> returns that token. When it fails, the
  token is as before, in memory and in the storage.
\<close>

theorem C6_signup_login_store_token:
  "(fst (signup stringify fetch payload c) = Inr data \<longrightarrow>
       snd (signup stringify fetch payload c) =
         setToken (Some (AuthResponse.token data))
           (c\<lparr>sent := sent c @ [POST_json (baseUrl c @ ''/auth/signup'')
                                  [(''Content-Type'', ''application/json'')] (stringify payload)]\<rparr>)
       \<and> getToken (snd (signup stringify fetch payload c)) = Some (AuthResponse.token data))
   \<and> (fetch (POST_json (baseUrl c @ ''/auth/signup'')
                [(''Content-Type'', ''application/json'')] (stringify payload)) = Inr response
         \<and> ok response \<and> json response = Inr data \<longrightarrow>
       fst (signup stringify fetch payload c) = Inr data)
   \<and> (fst (signup stringify fetch payload c) = Inl e \<longrightarrow>
       getToken (snd (signup stringify fetch payload c)) = getToken c
       \<and> localStorage (snd (signup stringify fetch payload c)) = localStorage c)
   \<and> (fst (login stringify fetch payload c) = Inr data \<longrightarrow>
       snd (login stringify fetch payload c) =
         setToken (Some (AuthResponse.token data))
           (c\<lparr>sent := sent c @ [POST_json (baseUrl c @ ''/auth/login'')
                                  [(''Content-Type'', ''application/json'')] (stringify payload)]\<rparr>)
       \<and> getToken (snd (login stringify fetch payload c)) = Some (AuthResponse.token data))
   \<and> (fetch (POST_json (baseUrl c @ ''/auth/login'')
                [(''Content-Type'', ''application/json'')] (stringify payload)) = Inr response
         \<and> ok response \<and> json response = Inr data \<longrightarrow>
       fst (login stringify fetch payload c) = Inr data)
   \<and> (fst (login stringify fetch payload c) = Inl e \<longrightarrow>
       getToken (snd (login stringify fetch payload c)) = getToken c
       \<and> localStorage (snd (login stringify fetch payload c)) = localStorage c)"
proof -
  have s: "fst (signup stringify fetch payload c) = Inr data \<longrightarrow>
       snd (signup stringify fetch payload c) =
         setToken (Some (AuthResponse.token data))
           (c\<lparr>sent := sent c @ [POST_json (baseUrl c @ ''/auth/signup'')
                                  [(''Content-Type'', ''application/json'')] (stringify payload)]\<rparr>)
       \<and> getToken (snd (signup stringify fetch payload c)) = Some (AuthResponse.token data)"
    by (simp add: signup_cases getToken_def setToken_token split: sum.splits)
  have s_ok: "fetch (POST_json (baseUrl c @ ''/auth/signup'')
                  [(''Content-Type'', ''application/json'')] (stringify payload)) = Inr response
         \<and> ok response \<and> json response = Inr data \<longrightarrow>
       fst (signup stringify fetch payload c) = Inr data"
    by (simp add: signup_cases fetch_json_ok split: sum.splits)
  have s_fail: "fst (signup stringify fetch payload c) = Inl e \<longrightarrow>
       getToken (snd (signup stringify fetch payload c)) = getToken c
       \<and> localStorage (snd (signup stringify fetch payload c)) = localStorage c"
    by (simp add: signup_cases getToken_def split: sum.splits)
  have l: "fst (login stringify fetch payload c) = Inr data \<longrightarrow>
       snd (login stringify fetch payload c) =
         setToken (Some (AuthResponse.token data))
           (c\<lparr>sent := sent c @ [POST_json (baseUrl c @ ''/auth/login'')
                                  [(''Content-Type'', ''application/json'')] (stringify payload)]\<rparr>)
       \<and> getToken (snd (login stringify fetch payload c)) = Some (AuthResponse.token data)"
    by (simp add: login_cases getToken_def setToken_token split: sum.splits)
  have l_ok: "fetch (POST_json (baseUrl c @ ''/auth/login'')
                  [(''Content-Type'', ''application/json'')] (stringify payload)) = Inr response
         \<and> ok response \<and> json response = Inr data \<longrightarrow>
       fst (login stringify fetch payload c) = Inr data"
    by (simp add: login_cases fetch_json_ok split: sum.splits)
  have l_fail: "fst (login stringify fetch payload c) = Inl e \<longrightarrow>
       getToken (snd (login stringify fetch payload c)) = getToken c
       \<and> localStorage (snd (login stringify fetch payload c)) = localStorage c"
    by (simp add: login_cases getToken_def split: sum.splits)
  show ?thesis
    by (intro conjI s s_ok s_fail l l_ok l_fail)
qed

theorem C6_signup_login_store_token_witness:
  "fst (login stringify_any (\<lambda>req. Inr auth_ok) ''credentials'' (browser_client None))
     = Inr \<lparr>AuthResponse.token = ''t0k3n'', user = ''alice''\<rparr>
   \<and> getToken (snd (login stringify_any (\<lambda>req. Inr auth_ok) ''credentials''
                       (browser_client None))) = Some ''t0k3n''
   \<and> fst (signup stringify_any (\<lambda>req. Inr auth_ok) ''credentials'' (browser_client None))
     = Inr \<lparr>AuthResponse.token = ''t0k3n'', user = ''alice''\<rparr>
   \<and> getToken (snd (signup stringify_any (\<lambda>req. Inr auth_ok) ''credentials''
                       (browser_client None))) = Some ''t0k3n''"
proof -
  have ok: "ok auth_ok" "json auth_ok = Inr \<lparr>AuthResponse.token = ''t0k3n'', user = ''alice''\<rparr>"
    by (simp_all add: ok_def auth_ok_def)
  show ?thesis
    using ok
      C6_signup_login_store_token
        [of stringify_any "\<lambda>req. Inr auth_ok" "''credentials''" "browser_client None"
           "\<lparr>AuthResponse.token = ''t0k3n'', user = ''alice''\<rparr>" auth_ok
           "Error ''none''"]
    by auto
qed


section \<open>Properties of getWeatherByCoordinates\<close>

lemma getWeatherByCoordinates_unfold:
  "getWeatherByCoordinates fetch1 fetch2 b lat lon days c =
     ((case Promise_all b (fst (getCurrentWeather fetch1 lat lon c))
              (fst (getForecast fetch2 lat lon (Some (parameter (Fin 7) days)) c)) of
         Inl e \<Rightarrow> Inl e
       | Inr (cur, forecastData) \<Rightarrow>
           Inr \<lparr>current = cur, forecast = ForecastData.forecast forecastData\<rparr>),
      c\<lparr>sent := sent c
         @ [GET (baseUrl c @ ''/current?lat='' @ numberToString lat @ ''&lon=''
                   @ numberToString lon),
            GET (baseUrl c @ ''/forecast?lat='' @ numberToString lat @ ''&lon=''
                   @ numberToString lon @ ''&days=''
                   @ numberToString (parameter (Fin 7) days))]\<rparr>)"
  by (simp add: getWeatherByCoordinates_def getCurrentWeather_def getForecast_def
      fetch_json_def parameter_def)

text \<open>
  Claim C3. \<^verbatim>\<open>getWeatherByCoordinates\<close> sends the current-weather request and the forecast
  request, both of them whatever the answer to either is. When both legs succeed it
  returns \<^verbatim>\<open>{current, forecast}\<close>, the forecast being the field \<^verbatim>\<open>forecast\<close> of the forecast
  leg's result. When a leg fails the call fails as a whole, with the error of a failed leg
  and no data; so it succeeds only when both legs do.
\<close>

theorem C3_getWeatherByCoordinates:
  "sent (snd (getWeatherByCoordinates fetch1 fetch2 b lat lon days c)) =
     sent c
     @ [GET (baseUrl c @ ''/current?lat='' @ numberToString lat @ ''&lon='' @ numberToString lon),
        GET (baseUrl c @ ''/forecast?lat='' @ numberToString lat @ ''&lon='' @ numberToString lon
             @ ''&days='' @ numberToString (parameter (Fin 7) days))]
   \<and> (fst (getCurrentWeather fetch1 lat lon c) = Inr cur
        \<and> fst (getForecast fetch2 lat lon (Some (parameter (Fin 7) days)) c) = Inr fd \<longrightarrow>
      fst (getWeatherByCoordinates fetch1 fetch2 b lat lon days c)
        = Inr \<lparr>current = cur, forecast = ForecastData.forecast fd\<rparr>)
   \<and> (fst (getCurrentWeather fetch1 lat lon c) = Inl e
        \<and> fst (getForecast fetch2 lat lon (Some (parameter (Fin 7) days)) c) = Inr fd \<longrightarrow>
      fst (getWeatherByCoordinates fetch1 fetch2 b lat lon days c) = Inl e)
   \<and> (fst (getCurrentWeather fetch1 lat lon c) = Inr cur
        \<and> fst (getForecast fetch2 lat lon (Some (parameter (Fin 7) days)) c) = Inl e \<longrightarrow>
      fst (getWeatherByCoordinates fetch1 fetch2 b lat lon days c) = Inl e)
   \<and> (fst (getCurrentWeather fetch1 lat lon c) = Inl e
        \<and> fst (getForecast fetch2 lat lon (Some (parameter (Fin 7) days)) c) = Inl e' \<longrightarrow>
      fst (getWeatherByCoordinates fetch1 fetch2 b lat lon days c)
        = Inl (if b then e' else e))
   \<and> (fst (getWeatherByCoordinates fetch1 fetch2 b lat lon days c) = Inr v \<longrightarrow>
      fst (getCurrentWeather fetch1 lat lon c) = Inr (current v)
      \<and> (\<exists>fd'. fst (getForecast fetch2 lat lon (Some (parameter (Fin 7) days)) c) = Inr fd'
             \<and> forecast v = ForecastData.forecast fd'))
   \<and> token (snd (getWeatherByCoordinates fetch1 fetch2 b lat lon days c)) = token c"
proof -
  have sent: "sent (snd (getWeatherByCoordinates fetch1 fetch2 b lat lon days c)) =
     sent c
     @ [GET (baseUrl c @ ''/current?lat='' @ numberToString lat @ ''&lon='' @ numberToString lon),
        GET (baseUrl c @ ''/forecast?lat='' @ numberToString lat @ ''&lon='' @ numberToString lon
             @ ''&days='' @ numberToString (parameter (Fin 7) days))]"
    and tok: "token (snd (getWeatherByCoordinates fetch1 fetch2 b lat lon days c)) = token c"
    by (simp_all add: getWeatherByCoordinates_unfold)
  have both: "fst (getCurrentWeather fetch1 lat lon c) = Inr cur
        \<and> fst (getForecast fetch2 lat lon (Some (parameter (Fin 7) days)) c) = Inr fd \<longrightarrow>
      fst (getWeatherByCoordinates fetch1 fetch2 b lat lon days c)
        = Inr \<lparr>current = cur, forecast = ForecastData.forecast fd\<rparr>"
    by (simp add: getWeatherByCoordinates_unfold Promise_all_def)
  have first: "fst (getCurrentWeather fetch1 lat lon c) = Inl e
        \<and> fst (getForecast fetch2 lat lon (Some (parameter (Fin 7) days)) c) = Inr fd \<longrightarrow>
      fst (getWeatherByCoordinates fetch1 fetch2 b lat lon days c) = Inl e"
    by (simp add: getWeatherByCoordinates_unfold Promise_all_def)
  have second: "fst (getCurrentWeather fetch1 lat lon c) = Inr cur
        \<and> fst (getForecast fetch2 lat lon (Some (parameter (Fin 7) days)) c) = Inl e \<longrightarrow>
      fst (getWeatherByCoordinates fetch1 fetch2 b lat lon days c) = Inl e"
    by (simp add: getWeatherByCoordinates_unfold Promise_all_def)
  have neither: "fst (getCurrentWeather fetch1 lat lon c) = Inl e
        \<and> fst (getForecast fetch2 lat lon (Some (parameter (Fin 7) days)) c) = Inl e' \<longrightarrow>
      fst (getWeatherByCoordinates fetch1 fetch2 b lat lon days c)
        = Inl (if b then e' else e)"
    by (simp add: getWeatherByCoordinates_unfold Promise_all_def)
  have only: "fst (getWeatherByCoordinates fetch1 fetch2 b lat lon days c) = Inr v \<longrightarrow>
      fst (getCurrentWeather fetch1 lat lon c) = Inr (current v)
      \<and> (\<exists>fd'. fst (getForecast fetch2 lat lon (Some (parameter (Fin 7) days)) c) = Inr fd'
             \<and> forecast v = ForecastData.forecast fd')"
    by (auto simp: getWeatherByCoordinates_unfold Promise_all_def split: sum.splits)
  show ?thesis
    by (intro conjI sent both first second neither only tok)
qed

theorem C3_getWeatherByCoordinates_witness:
  "fst (getWeatherByCoordinates (\<lambda>req. Inr current_ok) (\<lambda>req. Inr forecast_ok) False
          (Fin 0) (Fin 0) None (browser_client None))
     = Inr \<lparr>current = ''sunny'', forecast = [''mon'', ''tue'']\<rparr>
   \<and> fst (getWeatherByCoordinates (\<lambda>req. Inr current_ok) (\<lambda>req. Inr bad_request) False
          (Fin 0) (Fin 0) None (browser_client None))
     = (Inl (Error ''Invalid date range'')
          :: js_error + (string, string) CoordinatesWeather)"
proof -
  have c: "fst (getCurrentWeather (\<lambda>req. Inr current_ok) (Fin 0) (Fin 0) (browser_client None))
             = Inr ''sunny''"
    by (simp add: getCurrentWeather_def fetch_json_def handleResponse_def ok_def current_ok_def)
  have f: "fst (getForecast (\<lambda>req. Inr forecast_ok) (Fin 0) (Fin 0)
                  (Some (parameter (Fin 7) None)) (browser_client None))
             = Inr \<lparr>ForecastData.forecast = [''mon'', ''tue''], ForecastData.timezone = ''UTC''\<rparr>"
    by (simp add: getForecast_def fetch_json_def handleResponse_def ok_def forecast_ok_def)
  have g: "fst (getForecast (\<lambda>req. Inr (bad_request :: string ForecastData response))
                  (Fin 0) (Fin 0) (Some (parameter (Fin 7) None)) (browser_client None))
             = Inl (Error ''Invalid date range'')"
    by (simp add: getForecast_def fetch_json_def handleResponse_def ok_def bad_request_def
        truthy_string_def)
  note ok_ok =
    C3_getWeatherByCoordinates
      [of "\<lambda>req. Inr current_ok" "\<lambda>req. Inr forecast_ok" False "Fin 0" "Fin 0" None
         "browser_client None" "''sunny''"
         "\<lparr>ForecastData.forecast = [''mon'', ''tue''], ForecastData.timezone = ''UTC''\<rparr>"
         "Error ''none''" "Error ''none''"
         "\<lparr>current = ''sunny'', forecast = [''mon'', ''tue'']\<rparr>"]
  note ok_bad =
    C3_getWeatherByCoordinates
      [of "\<lambda>req. Inr current_ok" "\<lambda>req. Inr (bad_request :: string ForecastData response)"
         False "Fin 0" "Fin 0" None
         "browser_client None" "''sunny''"
         "\<lparr>ForecastData.forecast = [''mon'', ''tue''], ForecastData.timezone = ''UTC''\<rparr>"
         "Error ''Invalid date range''" "Error ''none''"
         "\<lparr>current = ''sunny'', forecast = [''mon'', ''tue'']\<rparr>"]
  have 1: "fst (getWeatherByCoordinates (\<lambda>req. Inr current_ok) (\<lambda>req. Inr forecast_ok) False
          (Fin 0) (Fin 0) None (browser_client None))
     = Inr \<lparr>current = ''sunny'',
            forecast = ForecastData.forecast
              \<lparr>ForecastData.forecast = [''mon'', ''tue''], ForecastData.timezone = ''UTC''\<rparr>\<rparr>"
    using ok_ok c f by blast
  have 2: "fst (getWeatherByCoordinates (\<lambda>req. Inr current_ok) (\<lambda>req. Inr bad_request) False
          (Fin 0) (Fin 0) None (browser_client None))
     = (Inl (Error ''Invalid date range'')
          :: js_error + (string, string) CoordinatesWeather)"
    using ok_bad c g by blast
  show ?thesis
    using 1 2 by simp
qed

section \<open>Properties of the XML export\<close>

lemma replace_all_Cons:
  "replace_all c r (x # xs) = (if x = c then r else [x]) @ replace_all c r xs"
  by (simp add: replace_all_def)

lemma replace_all_Nil: "replace_all c r [] = []"
  by (simp add: replace_all_def)

lemma replace_all_append:
  "replace_all c r (xs @ ys) = replace_all c r xs @ replace_all c r ys"
  by (simp add: replace_all_def)

lemma escapeXml_Nil: "escapeXml [] = []"
  by (simp add: escapeXml_def replace_all_Nil)

lemma escapeXml_Cons: "escapeXml (x # xs) = xml_entity x @ escapeXml xs"
  by (simp add: escapeXml_def xml_entity_def replace_all_Cons replace_all_append
      replace_all_Nil)

lemma escapeXml_single_pass: "escapeXml s = concat (map xml_entity s)"
  by (induction s) (simp_all add: escapeXml_Nil escapeXml_Cons)

lemma sublist_join: "x \<in> set ls \<Longrightarrow> sublist x (join sep ls)"
proof (induction sep ls rule: join.induct)
  case (1 sep)
  then show ?case by simp
next
  case (2 sep y)
  then show ?case by simp
next
  case (3 sep y z zs)
  show ?case
  proof (cases "x = y")
    case True
    have "join sep (y # z # zs) = [] @ x @ (sep @ join sep (z # zs))"
      using True by simp
    then show ?thesis
      unfolding sublist_def by blast
  next
    case False
    with 3 have "sublist x (join sep (z # zs))" by simp
    then obtain ps ss where "join sep (z # zs) = ps @ x @ ss"
      unfolding sublist_def by blast
    then have "join sep (y # z # zs) = (y @ sep @ ps) @ x @ ss"
      by simp
    then show ?thesis
      unfolding sublist_def by blast
  qed
qed

lemma sublist_line:
  assumes "l \<in> set ls" and "l = pre @ x @ post"
  shows "sublist x (join sep ls)"
proof -
  have "sublist l (join sep ls)"
    using assms(1) by (rule sublist_join)
  moreover have "sublist x l"
    unfolding assms(2) sublist_def by blast
  ultimately show ?thesis
    by (rule sublist_order.order_trans [rotated])
qed

lemma xml_day_description:
  "sublist (''<weatherDescription>'' @ escapeXml (weather_description d)
            @ ''</weatherDescription>'') (xml_day d)"
  unfolding xml_day_def
  by (rule sublist_line [where pre = "''      ''" and post = "[]"
        and l = "''      <weatherDescription>'' @ escapeXml (weather_description d)
                 @ ''</weatherDescription>''"]) simp_all

lemma xml_days_description:
  assumes "d \<in> set ds"
  shows "sublist (''<weatherDescription>'' @ escapeXml (weather_description d)
                  @ ''</weatherDescription>'') (join newline (map xml_day ds))"
proof -
  have "xml_day d \<in> set (map xml_day ds)"
    using assms by simp
  then have "sublist (xml_day d) (join newline (map xml_day ds))"
    by (rule sublist_join)
  with xml_day_description [of d] show ?thesis
    by (rule sublist_order.order_trans)
qed

lemma exportAsXML_name:
  "sublist (''<name>'' @ escapeXml (location_name r) @ ''</name>'') (content (exportAsXML r))"
  unfolding exportAsXML_def download.simps
  by (rule sublist_line [where pre = "''    ''" and post = "[]"
        and l = "''    <name>'' @ escapeXml (location_name r) @ ''</name>''"]) simp_all

lemma exportAsXML_country:
  "sublist (''<country>'' @ escapeXml (country r) @ ''</country>'') (content (exportAsXML r))"
  unfolding exportAsXML_def download.simps
  by (rule sublist_line [where pre = "''    ''" and post = "[]"
        and l = "''    <country>'' @ escapeXml (country r) @ ''</country>''"]) simp_all

lemma exportAsXML_timezone:
  "sublist (''<timezone>'' @ escapeXml (timezone r) @ ''</timezone>'') (content (exportAsXML r))"
  unfolding exportAsXML_def download.simps
  by (rule sublist_line [where pre = "''    ''" and post = "[]"
        and l = "''    <timezone>'' @ escapeXml (timezone r) @ ''</timezone>''"]) simp_all

lemma exportAsXML_notes:
  "sublist (''<notes>'' @ escapeXml (request_notes r) @ ''</notes>'') (content (exportAsXML r))"
proof -
  have n: "(if truthy_string (request_notes r) then request_notes r else []) = request_notes r"
    by (simp add: truthy_string_def)
  show ?thesis
    unfolding exportAsXML_def download.simps n
    by (rule sublist_line [where pre = "''  ''" and post = "[]"
          and l = "''  <notes>'' @ escapeXml (request_notes r) @ ''</notes>''"]) simp_all
qed

lemma exportAsXML_description:
  assumes "d \<in> set (weather_data r)"
  shows "sublist (''<weatherDescription>'' @ escapeXml (weather_description d)
                  @ ''</weatherDescription>'') (content (exportAsXML r))"
proof -
  have "sublist (join newline (map xml_day (weather_data r))) (content (exportAsXML r))"
    unfolding exportAsXML_def download.simps
    by (rule sublist_join) simp
  with xml_days_description [OF assms] show ?thesis
    by (rule sublist_order.order_trans)
qed

text \<open>
  Claim C7. \<^verbatim>\<open>escapeXml\<close>, which substitutes \<^verbatim>\<open>&\<close> first and then \<^verbatim>\<open><\<close>, \<^verbatim>\<open>>\<close>, the double
  and the single quote, replaces every character of any string by its entity once: no
  entity written by a substitution is escaped again by a later one. So \<^verbatim>\<open>A & B <C>\<close>
  becomes \<^verbatim>\<open>A &amp; B &lt;C&gt;\<close>. The XML export carries the location name, the country,
  the timezone, the notes and every day's weather description escaped in this way.
\<close>

theorem C7_xml_escaping:
  "escapeXml s = concat (map xml_entity s)
   \<and> escapeXml ''A & B <C>'' = ''A &amp; B &lt;C&gt;''
   \<and> sublist (''<name>'' @ concat (map xml_entity (location_name r)) @ ''</name>'')
        (content (exportAsXML r))
   \<and> sublist (''<country>'' @ concat (map xml_entity (country r)) @ ''</country>'')
        (content (exportAsXML r))
   \<and> sublist (''<timezone>'' @ concat (map xml_entity (timezone r)) @ ''</timezone>'')
        (content (exportAsXML r))
   \<and> sublist (''<notes>'' @ concat (map xml_entity (request_notes r)) @ ''</notes>'')
        (content (exportAsXML r))
   \<and> (\<forall>d \<in> set (weather_data r).
        sublist (''<weatherDescription>'' @ concat (map xml_entity (weather_description d))
                 @ ''</weatherDescription>'') (content (exportAsXML r)))
   \<and> (request_notes r = ''A & B <C>'' \<longrightarrow>
        sublist ''<notes>A &amp; B &lt;C&gt;</notes>'' (content (exportAsXML r)))"
proof -
  have example: "escapeXml ''A & B <C>'' = ''A &amp; B &lt;C&gt;''"
    by (simp add: escapeXml_Cons escapeXml_Nil xml_entity_def)
  have note_text: "request_notes r = ''A & B <C>'' \<longrightarrow>
        sublist ''<notes>A &amp; B &lt;C&gt;</notes>'' (content (exportAsXML r))"
  proof
    assume "request_notes r = ''A & B <C>''"
    with exportAsXML_notes [of r] example show
      "sublist ''<notes>A &amp; B &lt;C&gt;</notes>'' (content (exportAsXML r))"
      by simp
  qed
  have days: "\<forall>d \<in> set (weather_data r).
        sublist (''<weatherDescription>'' @ concat (map xml_entity (weather_description d))
                 @ ''</weatherDescription>'') (content (exportAsXML r))"
    using exportAsXML_description [of _ r] by (simp add: escapeXml_single_pass)
  show ?thesis
    using example note_text days exportAsXML_name [of r] exportAsXML_country [of r]
      exportAsXML_timezone [of r] exportAsXML_notes [of r]
    by (simp only: escapeXml_single_pass simp_thms)
qed

theorem C7_xml_escaping_witness:
  \<open>escapeXml ''a<b'' = ''a&lt;b''
   \<and> sublist ''<notes>A &amp; B &lt;C&gt;</notes>'' (content (exportAsXML sample_request))
   \<and> sublist ''<weatherDescription>Rain &amp; &quot;wind&quot;</weatherDescription>''
        (content (exportAsXML sample_request))\<close>
proof -
  note T = C7_xml_escaping [of "''a<b''" sample_request]
  have n: "request_notes sample_request = ''A & B <C>''"
    by (simp add: sample_request_def)
  have d: "day_two \<in> set (weather_data sample_request)"
    by (simp add: sample_request_def)
  have e: \<open>concat (map xml_entity (weather_description day_two)) = ''Rain &amp; &quot;wind&quot;''\<close>
    by (simp add: day_two_def xml_entity_def)
  have 1: "escapeXml ''a<b'' = ''a&lt;b''"
    using T by (simp add: xml_entity_def)
  have 2: "sublist ''<notes>A &amp; B &lt;C&gt;</notes>'' (content (exportAsXML sample_request))"
    using T n by blast
  have "sublist (''<weatherDescription>''
                 @ concat (map xml_entity (weather_description day_two))
                 @ ''</weatherDescription>'') (content (exportAsXML sample_request))"
    using T d by blast
  then have 3: \<open>sublist ''<weatherDescription>Rain &amp; &quot;wind&quot;</weatherDescription>''
        (content (exportAsXML sample_request))\<close>
    unfolding e by simp
  show ?thesis
    using 1 2 3 by simp
qed

section \<open>Properties of the number model\<close>

lemma ilog_bounds:
  assumes "1 < b" and "0 < q"
  shows "of_nat b powi (ilog b q) \<le> q \<and> q < of_nat b powi (ilog b q + 1)"
proof -
  obtain n d where nd: "quotient_of q = (n, d)"
    by (cases "quotient_of q")
  have d: "0 < d"
    using nd by (rule quotient_of_denom_pos)
  have q: "q = of_int n / of_int d"
    using nd by (rule quotient_of_div)
  have n: "0 < n"
    using assms(2) d unfolding q by (simp add: zero_less_divide_iff)
  define N D where "N = nat n" and "D = nat d"
  define B :: rat where "B = of_nat b"
  define ln ld where "ln = floorlog b N" and "ld = floorlog b D"
  have pos: "0 < N" "0 < D" "1 < B" "0 < B"
    using n d assms(1) by (simp_all add: N_def D_def B_def)
  have qND: "q = of_nat N / of_nat D"
    using n d unfolding q N_def D_def by simp
  have "ln \<noteq> 0" "ld \<noteq> 0"
    using pos assms(1) floorlog_eq_zero_iff [of b N] floorlog_eq_zero_iff [of b D]
    by (simp_all add: ln_def ld_def)
  then have l: "0 < ln" "0 < ld"
    by simp_all
  have "b ^ (ln - 1) \<le> N" "N < b ^ ln" "b ^ (ld - 1) \<le> D" "D < b ^ ld"
    using floorlog_bounds [of N b] floorlog_bounds [of D b] pos assms(1)
    by (simp_all add: ln_def ld_def)
  then have "(of_nat (b ^ (ln - 1)) :: rat) \<le> of_nat N" "(of_nat N :: rat) < of_nat (b ^ ln)"
    "(of_nat (b ^ (ld - 1)) :: rat) \<le> of_nat D" "(of_nat D :: rat) < of_nat (b ^ ld)"
    by (simp_all only: of_nat_le_iff of_nat_less_iff)
  then have bounds: "B ^ (ln - 1) \<le> of_nat N" "of_nat N < B ^ ln"
    "B ^ (ld - 1) \<le> of_nat D" "of_nat D < B ^ ld"
    by (simp_all only: B_def of_nat_power)
  define e where "e = int ln - int ld"
  have up: "q < B powi (e + 1)"
  proof -
    have "of_nat N / of_nat D < B ^ ln / B ^ (ld - 1)"
      using bounds pos by (intro frac_less) simp_all
    also have "B ^ ln / B ^ (ld - 1) = B powi (int ln - int (ld - 1))"
      using pos power_int_diff [of B "int ln" "int (ld - 1)"] by simp
    also have "int ln - int (ld - 1) = e + 1"
      using l by (simp add: e_def)
    finally show ?thesis
      by (simp only: qND)
  qed
  have low: "B powi (e - 1) < q"
  proof -
    have "B ^ (ln - 1) / B ^ ld < of_nat N / of_nat D"
      using bounds pos by (intro frac_less2) simp_all
    moreover have "B ^ (ln - 1) / B ^ ld = B powi (int (ln - 1) - int ld)"
      using pos power_int_diff [of B "int (ln - 1)" "int ld"] by simp
    moreover have "int (ln - 1) - int ld = e - 1"
      using l by (simp add: e_def)
    ultimately show ?thesis
      by (simp only: qND)
  qed
  have il: "ilog b q = (if q < B powi e then e - 1 else e)"
    by (simp add: ilog_def nd Let_def N_def D_def B_def ln_def ld_def e_def)
  show ?thesis
  proof (cases "q < B powi e")
    case True
    then show ?thesis
      using low by (simp add: il B_def)
  next
    case False
    then show ?thesis
      using up by (simp add: il B_def)
  qed
qed

lemma powi_exponent_unique:
  fixes B :: rat
  assumes "1 < B" and "B powi e \<le> q" and "q < B powi (e + 1)"
    and "B powi e' \<le> q" and "q < B powi (e' + 1)"
  shows "e = e'"
proof (rule ccontr)
  assume "e \<noteq> e'"
  then consider "e + 1 \<le> e'" | "e' + 1 \<le> e" by linarith
  then show False
  proof cases
    case 1
    then have "B powi (e + 1) \<le> B powi e'"
      using assms(1) by (intro power_int_increasing) simp_all
    with assms show False by linarith
  next
    case 2
    then have "B powi (e' + 1) \<le> B powi e"
      using assms(1) by (intro power_int_increasing) simp_all
    with assms show False by linarith
  qed
qed

lemma ilog_eqI:
  assumes "1 < b" and "of_nat b powi e \<le> q" and "q < of_nat b powi (e + 1)"
  shows "ilog b q = e"
proof -
  have B: "1 < (of_nat b :: rat)"
    using assms(1) by simp
  have "0 < (of_nat b :: rat) powi e"
    using B by simp
  then have "0 < q"
    using assms(2) by linarith
  then show ?thesis
    using ilog_bounds [OF assms(1), of q] powi_exponent_unique [OF B _ _ assms(2,3)]
    by blast
qed

lemma round_even_eqI:
  assumes "of_int z - 1 / 2 < q" and "q < of_int z + 1 / 2"
  shows "round_even q = z"
proof (cases "of_int z \<le> q")
  case True
  then have "\<lfloor>q\<rfloor> = z"
    using assms(2) by (intro floor_unique) simp_all
  then show ?thesis
    using assms(2) by (simp add: round_even_def Let_def)
next
  case False
  then have f: "\<lfloor>q\<rfloor> = z - 1"
    using assms(1) by (intro floor_unique) simp_all
  have "1 / 2 < q - of_int (z - 1)"
    using assms(1) by simp
  then show ?thesis
    by (simp add: round_even_def Let_def f)
qed

lemma round_even_of_int: "round_even (of_int z) = z"
  by (rule round_even_eqI) simp_all

lemma round_double_eqI:
  assumes "2 powi k \<le> \<bar>q\<bar>" and "\<bar>q\<bar> < 2 powi (k + 1)" and "- 1022 \<le> k"
    and "round_even (\<bar>q\<bar> / 2 powi (k - 52)) = m"
    and "(of_int m :: rat) * 2 powi (k - 52) < 2 ^ 1024"
  shows "round_double q = Fin (sgn q * (of_int m * 2 powi (k - 52)))"
proof -
  have "(0::rat) < 2 powi k"
    by simp
  then have "0 < \<bar>q\<bar>"
    using assms(1) by linarith
  then have q: "q \<noteq> 0"
    by simp
  have "ilog 2 \<bar>q\<bar> = k"
    using assms(1,2) by (intro ilog_eqI) simp_all
  moreover have "max (k - 52) (- 1074) = k - 52"
    using assms(3) by simp
  ultimately show ?thesis
    using q assms(4,5) by (simp add: round_double_def Let_def)
qed

lemma round_double_of_int:
  assumes "\<bar>i\<bar> < 2 ^ 53"
  shows "round_double (of_int i) = Fin (of_int i)"
proof (cases "i = 0")
  case True
  then show ?thesis by (simp add: round_double_def)
next
  case False
  define q :: rat where "q = of_int i"
  define k where "k = ilog 2 \<bar>q\<bar>"
  have q: "1 \<le> \<bar>q\<bar>" "\<bar>q\<bar> < 2 ^ 53" "\<bar>q\<bar> = of_int \<bar>i\<bar>"
    using False assms unfolding q_def
    by (simp_all flip: of_int_abs add: of_int_less_iff [of "\<bar>i\<bar>" "2 ^ 53", where ?'a = rat, simplified])
  then have "0 < \<bar>q\<bar>" by linarith
  then have b: "2 powi k \<le> \<bar>q\<bar>" "\<bar>q\<bar> < 2 powi (k + 1)"
    using ilog_bounds [of 2 "\<bar>q\<bar>"] by (simp_all add: k_def)
  have k0: "0 \<le> k"
  proof (rule ccontr)
    assume "\<not> 0 \<le> k"
    then have "k + 1 \<le> 0" by simp
    then have "(2::rat) powi (k + 1) \<le> 2 powi 0"
      by (intro power_int_increasing) simp_all
    with b(2) q(1) show False by simp
  qed
  have k52: "k \<le> 52"
  proof (rule ccontr)
    assume "\<not> k \<le> 52"
    then have "53 \<le> k" by simp
    then have "(2::rat) powi 53 \<le> 2 powi k"
      by (intro power_int_increasing) simp_all
    with b(1) q(2) show False by simp
  qed
  define j where "j = nat (52 - k)"
  have kj: "k - 52 = - int j"
    using k52 by (simp add: j_def)
  have p: "(2::rat) powi (k - 52) = 1 / 2 ^ j"
    unfolding kj by (simp add: power_int_minus_divide)
  have "\<bar>q\<bar> / 2 powi (k - 52) = of_int (\<bar>i\<bar> * 2 ^ j)"
    by (simp add: p q(3))
  then have m: "round_even (\<bar>q\<bar> / 2 powi (k - 52)) = \<bar>i\<bar> * 2 ^ j"
    by (simp only: round_even_of_int)
  have v: "of_int (\<bar>i\<bar> * 2 ^ j) * 2 powi (k - 52) = \<bar>q\<bar>"
    by (simp add: p q(3))
  have "\<bar>q\<bar> < 2 ^ 1024"
    using q(2) power_strict_increasing [of 53 1024 "2::rat"] by simp
  then have small: "rat_of_int (\<bar>i\<bar> * 2 ^ j) * 2 powi (k - 52) < 2 ^ 1024"
    by (simp only: v)
  have "- 1022 \<le> k"
    using k0 by simp
  then have "round_double q = Fin (sgn q * (of_int (\<bar>i\<bar> * 2 ^ j) * 2 powi (k - 52)))"
    using b m small by (intro round_double_eqI)
  then show ?thesis
    by (simp only: v) (simp add: q_def sgn_mult_abs)
qed


lemma round_double_numeral:
  "numeral n < (2::int) ^ 53 \<Longrightarrow> round_double (numeral n) = Fin (numeral n)"
  using round_double_of_int [of "numeral n"] by simp

lemma round_double_one: "round_double 1 = Fin 1"
  using round_double_of_int [of 1] by simp

lemma round_double_zero: "round_double 0 = Fin 0"
  by (simp add: round_double_def)

lemma floor_numeral_divide:
  "\<lfloor>numeral a / numeral b :: rat\<rfloor> = numeral a div numeral b"
  using floor_divide_of_int_eq [of "numeral a" "numeral b", where ?'a = rat] by simp

lemma floor_one_divide: "\<lfloor>1 / numeral b :: rat\<rfloor> = 1 div numeral b"
  using floor_divide_of_int_eq [of 1 "numeral b", where ?'a = rat] by simp

lemma ilog_10_one_digit:
  "1 \<le> q \<Longrightarrow> q < 10 \<Longrightarrow> ilog 10 q = 0"
  by (rule ilog_eqI) simp_all

lemma ilog_10_two_digits:
  "10 \<le> q \<Longrightarrow> q < 100 \<Longrightarrow> ilog 10 q = 1"
  by (rule ilog_eqI) simp_all

lemmas number_text =
  numberToString.simps positive_text_def shortest.simps candidates_def closest.simps
  distance_def Let_def digits.simps digit_def zeros_def round_double_numeral round_double_one
  floor_numeral_divide floor_one_divide ilog_10_one_digit ilog_10_two_digits

lemma length_fixed_width: "length (fixed_width k n) = k"
  by (induction k arbitrary: n) simp_all

lemma fixed_width_zero: "fixed_width k 0 = zeros k"
  by (induction k) (simp_all add: zeros_def digit_def replicate_append_same)

lemma digits_less_10: "n < 10 \<Longrightarrow> digits n = [digit n]"
  by (simp add: digits.simps [of n])

lemma digits_ge_10: "10 \<le> n \<Longrightarrow> digits n = digits (n div 10) @ [digit (n mod 10)]"
  by (simp add: digits.simps [of n])

lemma digits_split:
  "10 ^ k \<le> n \<Longrightarrow> digits n = digits (n div 10 ^ k) @ fixed_width k (n mod 10 ^ k)"
proof (induction k arbitrary: n)
  case 0
  then show ?case by simp
next
  case (Suc k)
  then have "10 * 10 ^ k \<le> n"
    by simp
  moreover have "(1::nat) \<le> 10 ^ k"
    by simp
  ultimately have n10: "10 \<le> n"
    by linarith
  from Suc.prems have "10 ^ k \<le> n div 10"
    by (simp add: less_eq_div_iff_mult_less_eq mult.commute)
  then have IH: "digits (n div 10) =
      digits (n div 10 div 10 ^ k) @ fixed_width k (n div 10 mod 10 ^ k)"
    by (rule Suc.IH)
  have a: "n div 10 div 10 ^ k = n div 10 ^ Suc k"
    by (simp add: div_mult2_eq)
  have b: "n mod 10 ^ Suc k div 10 = n div 10 mod 10 ^ k"
    by (simp add: mod_mult2_eq)
  have c: "n mod 10 ^ Suc k mod 10 = n mod 10"
    by (simp add: mod_mod_cancel)
  show ?case
    using IH a b c by (simp add: digits_ge_10 [OF n10])
qed

lemma digits_pad:
  "n < 10 ^ Suc k \<Longrightarrow>
     length (digits n) \<le> Suc k
     \<and> zeros (Suc k - length (digits n)) @ digits n = fixed_width (Suc k) n"
proof (induction k arbitrary: n)
  case 0
  then show ?case by (simp add: digits_less_10 zeros_def)
next
  case (Suc k)
  show ?case
  proof (cases "n < 10")
    case True
    then show ?thesis
      by (simp add: digits_less_10 fixed_width_zero zeros_def replicate_append_same)
  next
    case False
    then have n10: "10 \<le> n" by simp
    from Suc.prems have "n div 10 < 10 ^ Suc k"
      by (simp add: div_less_iff_less_mult mult.commute)
    then have IH: "length (digits (n div 10)) \<le> Suc k"
      "zeros (Suc k - length (digits (n div 10))) @ digits (n div 10)
         = fixed_width (Suc k) (n div 10)"
      using Suc.IH by blast+
    show ?thesis
      using IH by (simp add: digits_ge_10 [OF n10])
  qed
qed

lemma length_digits_le:
  assumes "0 < f"
  shows "length (digits n) \<le> f \<longleftrightarrow> n < 10 ^ f"
proof
  assume "n < 10 ^ f"
  then show "length (digits n) \<le> f"
    using assms digits_pad [of n "f - 1"] by simp
next
  assume l: "length (digits n) \<le> f"
  show "n < 10 ^ f"
  proof (rule ccontr)
    assume "\<not> n < 10 ^ f"
    then have "digits n = digits (n div 10 ^ f) @ fixed_width f (n mod 10 ^ f)"
      by (simp add: digits_split)
    then have "length (digits n) = length (digits (n div 10 ^ f)) + f"
      by (simp add: length_fixed_width)
    moreover have "0 < length (digits (n div 10 ^ f))"
      by (simp add: digits.simps [of "n div 10 ^ f"])
    ultimately show False using l by simp
  qed
qed

lemma toFixed_decimal_places:
  assumes "0 \<le> q" and "q < 10 ^ 21" and "0 < f"
  shows "toFixed f (Fin q) = decimal_places f q"
proof -
  define n where "n = nat \<lfloor>q * 10 ^ f + 1 / 2\<rfloor>"
  have tf: "toFixed f (Fin q) =
      (let m' = (if length (digits n) \<le> f then zeros (f + 1 - length (digits n)) @ digits n
                 else digits n)
       in take (length m' - f) m' @ ''.'' @ drop (length m' - f) m')"
    using assms by (simp add: toFixed_def Let_def n_def)
  have dp: "decimal_places f q = digits (n div 10 ^ f) @ ''.'' @ fixed_width f (n mod 10 ^ f)"
    by (simp add: decimal_places_def n_def Let_def)
  show ?thesis
  proof (cases "n < 10 ^ f")
    case True
    obtain k where k: "f = Suc k"
      using assms(3) by (cases f) simp_all
    have le: "length (digits n) \<le> f"
      using True assms(3) by (simp add: length_digits_le)
    have pad: "zeros (f - length (digits n)) @ digits n = fixed_width f n"
      using True digits_pad [of n k] k by simp
    have "zeros (f + 1 - length (digits n)) @ digits n = CHR ''0'' # fixed_width f n"
      using le pad by (simp add: zeros_def Suc_diff_le)
    then show ?thesis
      using True le
      by (simp add: tf dp Let_def length_fixed_width digits_less_10 digit_def)
  next
    case False
    then have split: "digits n = digits (n div 10 ^ f) @ fixed_width f (n mod 10 ^ f)"
      by (simp add: digits_split)
    have gt: "\<not> length (digits n) \<le> f"
      using False assms(3) by (simp add: length_digits_le)
    have len: "length (digits n) - f = length (digits (n div 10 ^ f))"
      by (subst split) (simp add: length_fixed_width)
    show ?thesis
      using gt by (simp add: tf dp Let_def len) (simp add: split)
  qed
qed


lemma decimal_places_eqI:
  assumes "of_int n \<le> y * 10 ^ f + 1 / 2" and "y * 10 ^ f + 1 / 2 < of_int n + 1"
  shows "decimal_places f y =
           digits (nat n div 10 ^ f) @ ''.'' @ fixed_width f (nat n mod 10 ^ f)"
proof -
  have "\<lfloor>y * 10 ^ f + 1 / 2\<rfloor> = n"
    using assms by (intro floor_unique) simp_all
  then show ?thesis
    by (simp add: decimal_places_def Let_def)
qed

lemma toFixed_eqI:
  assumes "0 \<le> q" and "q < 10 ^ 21" and "0 < f"
    and "of_int n \<le> q * 10 ^ f + 1 / 2" and "q * 10 ^ f + 1 / 2 < of_int n + 1"
  shows "toFixed f (Fin q) = digits (nat n div 10 ^ f) @ ''.'' @ fixed_width f (nat n mod 10 ^ f)"
  using toFixed_decimal_places [OF assms(1-3)] decimal_places_eqI [OF assms(4,5)] by simp

lemma fixed_width_numeral:
  "fixed_width (numeral k) n = fixed_width (pred_numeral k) (n div 10) @ [digit (n mod 10)]"
  by (subst numeral_eq_Suc) simp

lemma fixed_width_1: "fixed_width 1 n = [digit (n mod 10)]"
  by simp

lemma double_74_006:
  "round_double (- 740060 / 10000) = Fin (- 2603854640806101 / 35184372088832)"
proof -
  have "round_even (\<bar>- 740060 / 10000\<bar> / 2 powi (6 - 52)) = 5207709281612202"
    by (rule round_even_eqI) simp_all
  then show ?thesis
    using round_double_eqI [of 6 "- 740060 / 10000" 5207709281612202] by simp
qed

lemma double_40_7128:
  "round_double (407128 / 10000) = Fin (2864908607956399 / 70368744177664)"
proof -
  have "round_even (\<bar>407128 / 10000\<bar> / 2 powi (5 - 52)) = 5729817215912798"
    by (rule round_even_eqI) simp_all
  then show ?thesis
    using round_double_eqI [of 5 "407128 / 10000" 5729817215912798] by simp
qed

section \<open>Properties of formatCoordinates\<close>

lemma double_33_8688:
  "round_double (- 338688 / 10000) = Fin (- 4766609845608933 / 140737488355328)"
proof -
  have "round_even (\<bar>- 338688 / 10000\<bar> / 2 powi (5 - 52)) = 4766609845608933"
    by (rule round_even_eqI) simp_all
  then show ?thesis
    using round_double_eqI [of 5 "- 338688 / 10000" 4766609845608933] by simp
qed

lemma double_151_2093:
  "round_double (1512093 / 10000) = Fin (5320204274491825 / 35184372088832)"
proof -
  have "round_even (\<bar>1512093 / 10000\<bar> / 2 powi (7 - 52)) = 5320204274491825"
    by (rule round_even_eqI) simp_all
  then show ?thesis
    using round_double_eqI [of 7 "1512093 / 10000" 5320204274491825] by simp
qed

lemmas digit_text = digits.simps digit_def fixed_width_numeral fixed_width_1

lemma fixed_40_7128: "toFixed 4 (Fin (2864908607956399 / 70368744177664)) = ''40.7128''"
  using toFixed_eqI [of "2864908607956399 / 70368744177664" 4 407128]
  by (simp add: digit_text)

lemma fixed_74_006: "toFixed 4 (Fin (2603854640806101 / 35184372088832)) = ''74.0060''"
  using toFixed_eqI [of "2603854640806101 / 35184372088832" 4 740060]
  by (simp add: digit_text)

lemma fixed_33_8688: "toFixed 4 (Fin (4766609845608933 / 140737488355328)) = ''33.8688''"
  using toFixed_eqI [of "4766609845608933 / 140737488355328" 4 338688]
  by (simp add: digit_text)

lemma fixed_151_2093: "toFixed 4 (Fin (5320204274491825 / 35184372088832)) = ''151.2093''"
  using toFixed_eqI [of "5320204274491825 / 35184372088832" 4 1512093]
  by (simp add: digit_text)

lemma formatCoordinates_finite:
  assumes "\<bar>a\<bar> < 10 ^ 21" and "\<bar>b\<bar> < 10 ^ 21"
  shows "formatCoordinates (Fin a) (Fin b) =
           decimal_places 4 \<bar>a\<bar> @ degree @ (if 0 \<le> a then ''N'' else ''S'') @ '', ''
           @ decimal_places 4 \<bar>b\<bar> @ degree @ (if 0 \<le> b then ''E'' else ''W'')"
  using assms toFixed_decimal_places [of "\<bar>a\<bar>" 4] toFixed_decimal_places [of "\<bar>b\<bar>" 4]
  by (simp add: formatCoordinates_def Let_def)

lemma double_1e21: "round_double (10 ^ 21) = Fin (10 ^ 21)"
proof -
  have "round_even (\<bar>10 ^ 21\<bar> / 2 powi (69 - 52)) = 7629394531250000"
    by (rule round_even_eqI) simp_all
  then show ?thesis
    using round_double_eqI [of 69 "10 ^ 21" 7629394531250000] by simp
qed

lemma double_2e21: "round_double (2 * 10 ^ 21) = Fin (2 * 10 ^ 21)"
proof -
  have "round_even (\<bar>2 * 10 ^ 21\<bar> / 2 powi (70 - 52)) = 7629394531250000"
    by (rule round_even_eqI) simp_all
  then show ?thesis
    using round_double_eqI [of 70 "2 * 10 ^ 21" 7629394531250000] by simp
qed

lemma double_1e22: "round_double (10 ^ 22) = Fin (10 ^ 22)"
proof -
  have "round_even (\<bar>10 ^ 22\<bar> / 2 powi (73 - 52)) = 4768371582031250"
    by (rule round_even_eqI) simp_all
  then show ?thesis
    using round_double_eqI [of 73 "10 ^ 22" 4768371582031250] by simp
qed

lemma ilog_1e21: "ilog 10 (10 ^ 21) = 21"
  by (rule ilog_eqI) simp_all

lemma text_1e21: "numberToString (Fin (10 ^ 21)) = ''1e+21''"
proof -
  have a: "candidates (10 ^ 21) 1 22 = [(1, 22)]"
    using double_1e21 double_2e21 by (simp add: candidates_def Let_def)
  have b: "candidates (10 ^ 21) 1 23 = []"
    using double_1e22 by (simp add: candidates_def Let_def floor_one_divide)
  have "shortest (10 ^ 21) 22 [1, 2, 3, 4, 5, 6, 7, 8, 9, 10, 11, 12, 13, 14, 15, 16, 17]
          = Some (1, 1, 22)"
    using a b by simp
  moreover have "ilog 10 (10 ^ 21) + 1 = 22"
    using ilog_1e21 by simp
  ultimately have "positive_text (10 ^ 21) = ''1e+21''"
    unfolding positive_text_def by (simp add: exponent_text_def digits.simps digit_def)
  then show ?thesis
    by (simp add: numberToString.simps)
qed

lemma fixed_1e21: "toFixed 4 (Fin (10 ^ 21)) = ''1e+21''"
  using text_1e21 by (simp add: toFixed_def)

lemma fixed_0: "toFixed 4 (Fin 0) = ''0.0000''"
  using toFixed_eqI [of 0 4 0] by (simp add: digit_text)

lemma fixed_not_finite:
  "toFixed f NaN = ''NaN''" "toFixed f PosInfinity = ''Infinity''"
  by (simp_all add: toFixed_def numberToString.simps)

text \<open>
  Claim C9, as the code has it. For finite coordinates below \<open>10 ^ 21\<close> in size,
  \<^verbatim>\<open>formatCoordinates(lat, lon)\<close> is the absolute value of each coordinate to four decimal
  places (the integer part, a point and exactly four digits, rounded to the nearest multiple
  of \<open>10 ^ - 4\<close>), followed by the degree sign and the hemisphere letter (\<open>N\<close> when
  \<^verbatim>\<open>lat >= 0\<close>, otherwise \<open>S\<close>; \<open>E\<close> when \<^verbatim>\<open>lon >= 0\<close>, otherwise \<open>W\<close>), the two parts separated
  by a comma and a space. For every pair of numbers the text is that of \<^verbatim>\<open>toFixed(4)\<close> of each
  absolute value with the same signs and letters. The two examples of the specification come
  out as stated, from the doubles nearest to the decimal literals.
\<close>

theorem C9_formatCoordinates:
  "(\<bar>a\<bar> < 10 ^ 21 \<and> \<bar>b\<bar> < 10 ^ 21 \<longrightarrow>
        formatCoordinates (Fin a) (Fin b) =
          decimal_places 4 \<bar>a\<bar> @ [CHR 0xB0] @ (if 0 \<le> a then ''N'' else ''S'') @ '', ''
          @ decimal_places 4 \<bar>b\<bar> @ [CHR 0xB0] @ (if 0 \<le> b then ''E'' else ''W''))
   \<and> length (fixed_width 4 n) = 4
   \<and> formatCoordinates lat lon =
       toFixed 4 (Math_abs lat) @ [CHR 0xB0] @ (if ge_zero lat then ''N'' else ''S'') @ '', ''
       @ toFixed 4 (Math_abs lon) @ [CHR 0xB0] @ (if ge_zero lon then ''E'' else ''W'')
   \<and> formatCoordinates (round_double (407128 / 10000)) (round_double (- 740060 / 10000))
       = ''40.7128'' @ [CHR 0xB0] @ ''N, 74.0060'' @ [CHR 0xB0] @ ''W''
   \<and> formatCoordinates (round_double (- 338688 / 10000)) (round_double (1512093 / 10000))
       = ''33.8688'' @ [CHR 0xB0] @ ''S, 151.2093'' @ [CHR 0xB0] @ ''E''"
proof -
  have shape: "formatCoordinates lat lon =
     toFixed 4 (Math_abs lat) @ [CHR 0xB0] @ (if ge_zero lat then ''N'' else ''S'') @ '', ''
     @ toFixed 4 (Math_abs lon) @ [CHR 0xB0] @ (if ge_zero lon then ''E'' else ''W'')"
    by (simp add: formatCoordinates_def Let_def degree_def)
  have finite: "\<bar>a\<bar> < 10 ^ 21 \<and> \<bar>b\<bar> < 10 ^ 21 \<longrightarrow>
        formatCoordinates (Fin a) (Fin b) =
          decimal_places 4 \<bar>a\<bar> @ [CHR 0xB0] @ (if 0 \<le> a then ''N'' else ''S'') @ '', ''
          @ decimal_places 4 \<bar>b\<bar> @ [CHR 0xB0] @ (if 0 \<le> b then ''E'' else ''W'')"
    using formatCoordinates_finite [of a b] unfolding degree_def by blast
  have new_york:
    "formatCoordinates (round_double (407128 / 10000)) (round_double (- 740060 / 10000))
       = ''40.7128'' @ [CHR 0xB0] @ ''N, 74.0060'' @ [CHR 0xB0] @ ''W''"
    unfolding formatCoordinates_def Let_def double_40_7128 double_74_006 degree_def
    by (simp add: fixed_40_7128 fixed_74_006)
  have sydney:
    "formatCoordinates (round_double (- 338688 / 10000)) (round_double (1512093 / 10000))
       = ''33.8688'' @ [CHR 0xB0] @ ''S, 151.2093'' @ [CHR 0xB0] @ ''E''"
    unfolding formatCoordinates_def Let_def double_33_8688 double_151_2093 degree_def
    by (simp add: fixed_33_8688 fixed_151_2093)
  show ?thesis
    by (intro conjI finite length_fixed_width shape new_york sydney)
qed

theorem C9_formatCoordinates_witness:
  "\<bar>1 / 2 :: rat\<bar> < 10 ^ 21 \<and> \<bar>- 3 / 2 :: rat\<bar> < 10 ^ 21
   \<and> formatCoordinates (Fin (1 / 2)) (Fin (- 3 / 2))
       = ''0.5000'' @ [CHR 0xB0] @ ''N, 1.5000'' @ [CHR 0xB0] @ ''W''"
proof -
  have a: "decimal_places 4 \<bar>1 / 2\<bar> = ''0.5000''"
    using decimal_places_eqI [of 5000 "\<bar>1 / 2\<bar>" 4] by (simp add: digit_text)
  have b: "decimal_places 4 \<bar>- 3 / 2\<bar> = ''1.5000''"
    using decimal_places_eqI [of 15000 "\<bar>- 3 / 2\<bar>" 4] by (simp add: digit_text)
  have c: "\<bar>1 / 2 :: rat\<bar> < 10 ^ 21 \<and> \<bar>- 3 / 2 :: rat\<bar> < 10 ^ 21"
    by simp
  have "formatCoordinates (Fin (1 / 2)) (Fin (- 3 / 2)) =
          decimal_places 4 \<bar>1 / 2\<bar> @ [CHR 0xB0] @ (if (0::rat) \<le> 1 / 2 then ''N'' else ''S'') @ '', ''
          @ decimal_places 4 \<bar>- 3 / 2\<bar> @ [CHR 0xB0] @ (if (0::rat) \<le> - 3 / 2 then ''E'' else ''W'')"
    using c C9_formatCoordinates [of "1 / 2" "- 3 / 2" 0 "Fin (1 / 2)" "Fin (- 3 / 2)"]
    by blast
  then have "formatCoordinates (Fin (1 / 2)) (Fin (- 3 / 2))
       = ''0.5000'' @ [CHR 0xB0] @ ''N, 1.5000'' @ [CHR 0xB0] @ ''W''"
    unfolding a b by simp
  with c show ?thesis
    by blast
qed

text \<open>
  The claim as stated, for all numbers, fails outside that range: \<^verbatim>\<open>toFixed(4)\<close> of
  \<^verbatim>\<open>NaN\<close>, of an infinity and of a number from \<open>10 ^ 21\<close> on is the plain text of the number,
  with no decimal point at all.
\<close>

theorem C9_formatCoordinates_counterexample:
  "formatCoordinates NaN (Fin 0) = ''NaN'' @ [CHR 0xB0] @ ''S, 0.0000'' @ [CHR 0xB0] @ ''E''
   \<and> formatCoordinates (Fin (10 ^ 21)) NegInfinity
       = ''1e+21'' @ [CHR 0xB0] @ ''N, Infinity'' @ [CHR 0xB0] @ ''W''
   \<and> CHR ''.'' \<notin> set (toFixed 4 (Math_abs NaN))
   \<and> CHR ''.'' \<notin> set (toFixed 4 (Math_abs NegInfinity))
   \<and> CHR ''.'' \<notin> set (toFixed 4 (Math_abs (Fin (10 ^ 21))))"
  using fixed_1e21 fixed_0
  by (simp add: formatCoordinates_def Let_def degree_def fixed_not_finite)

section \<open>Properties of the Markdown and CSV exports\<close>

lemma sample_numbers:
  "numberToString (Fin 0) = ''0''"
  "numberToString (Fin 2) = ''2''" "numberToString (Fin 3) = ''3''"
  "numberToString (Fin 5) = ''5''" "numberToString (Fin 7) = ''7''"
  "numberToString (Fin 9) = ''9''" "numberToString (Fin 10) = ''10''"
  "numberToString (Fin 12) = ''12''" "numberToString (Fin 13) = ''13''"
  "numberToString (Fin 15) = ''15''" "numberToString (Fin 19) = ''19''"
  "numberToString (Fin 20) = ''20''" "numberToString (Fin 22) = ''22''"
  "numberToString (Fin 23) = ''23''" "numberToString (Fin 45) = ''45''"
  "numberToString (Fin 48) = ''48''" "numberToString (Fin 61) = ''61''"
  "numberToString (Fin 90) = ''90''"
  by (simp_all add: number_text)

lemma fixed_one_decimal:
  "toFixed 1 (Fin 21) = ''21.0''" "toFixed 1 (Fin 11) = ''11.0''" "toFixed 1 (Fin 6) = ''6.0''"
  "toFixed 1 (Fin 2) = ''2.0''" "toFixed 1 (Fin 0) = ''0.0''"
  using toFixed_eqI [of 21 1 210] toFixed_eqI [of 11 1 110] toFixed_eqI [of 6 1 60]
    toFixed_eqI [of 2 1 20] toFixed_eqI [of 0 1 0]
  by (simp_all add: digit_text)

lemma reduce_sum_two: "reduce_sum f [d1, d2] = js_add (js_add (Fin 0) (f d1)) (f d2)"
  by (simp add: reduce_sum_def)


lemma markdown_statistics_in_report:
  assumes "l \<in> set (markdown_statistics (weather_data r))"
  shows "sublist l (content (exportAsMarkdown now r))"
  unfolding exportAsMarkdown_def download.simps
  using assms by (intro sublist_join) simp

lemma exportAsCSV_content:
  "content (exportAsCSV r) =
     csv_metadata r @ join '','' csv_headers @ newline
     @ join newline (map (\<lambda>day. join '','' (csv_row day)) (weather_data r))"
  by (simp add: exportAsCSV_def)

lemma csv_row_day_one:
  \<open>join '','' (csv_row day_one) = ''2024-06-01,20,10,15,19,9,0,0,3,"Overcast",5,45''\<close>
  by (simp add: csv_row_def day_one_def sample_numbers)

lemma csv_row_day_two:
  \<open>join '','' (csv_row day_two) = ''2024-06-02,22,12,,23,13,2,2,61,"Rain & "wind"",7,90''\<close>
  by (simp add: csv_row_def day_two_def sample_numbers)

lemma csv_metadata_sample:
  "csv_metadata (sample_request\<lparr>weather_data := ds\<rparr>) =
     ''# Weather Data for Paris, France'' @ newline
     @ ''# Date Range: 2024-06-01 to 2024-06-02'' @ newline
     @ ''# Location: 48, 2'' @ newline
     @ ''# Timezone: Europe/Paris'' @ newline
     @ ''# Notes: A & B <C>''"
  by (simp add: csv_metadata_def sample_request_def truthy_string_def sample_numbers)

text \<open>
  Claim C8, as the code has it. For weather data of two days with maxima 20 and 22, minima
  10 and 12, precipitation 0 and 2 and wind speeds 5 and 7, the statistics of the Markdown
  export read 21.0 for the mean maximum, 11.0 for the mean minimum, 2.0 for the total
  precipitation and 6.0 for the mean wind speed, each with one decimal, and these lines are
  in the exported report. The CSV export consists of the metadata lines, the header row and
  one row for each day: it has no statistics.
\<close>

theorem C8_statistics:
  assumes "temperature_max d1 = Fin 20" and "temperature_min d1 = Fin 10"
    and "precipitation d1 = Fin 0" and "wind_speed_max d1 = Fin 5"
    and "temperature_max d2 = Fin 22" and "temperature_min d2 = Fin 12"
    and "precipitation d2 = Fin 2" and "wind_speed_max d2 = Fin 7"
  shows "markdown_statistics [d1, d2] ! 0
           = ''- **Average Max Temperature:** 21.0'' @ degree @ ''C''
         \<and> markdown_statistics [d1, d2] ! 1
           = ''- **Average Min Temperature:** 11.0'' @ degree @ ''C''
         \<and> markdown_statistics [d1, d2] ! 2 = ''- **Total Precipitation:** 2.0mm''
         \<and> markdown_statistics [d1, d2] ! 4 = ''- **Average Wind Speed:** 6.0km/h''
         \<and> (weather_data r = [d1, d2] \<longrightarrow>
              (\<forall>l \<in> set (markdown_statistics [d1, d2]).
                 sublist l (content (exportAsMarkdown now r))))
         \<and> content (exportAsCSV r) =
             csv_metadata r @ join '','' csv_headers @ newline
             @ join newline (map (\<lambda>day. join '','' (csv_row day)) (weather_data r))"
proof -
  have sums:
    "js_div (reduce_sum temperature_max [d1, d2]) (array_length [d1, d2]) = Fin 21"
    "js_div (reduce_sum temperature_min [d1, d2]) (array_length [d1, d2]) = Fin 11"
    "reduce_sum precipitation [d1, d2] = Fin 2"
    "js_div (reduce_sum wind_speed_max [d1, d2]) (array_length [d1, d2]) = Fin 6"
    using assms
    by (simp_all add: reduce_sum_two array_length_def round_double_numeral round_double_zero)
  have lines:
    "markdown_statistics [d1, d2] ! 0
       = ''- **Average Max Temperature:** 21.0'' @ degree @ ''C''"
    "markdown_statistics [d1, d2] ! 1
       = ''- **Average Min Temperature:** 11.0'' @ degree @ ''C''"
    "markdown_statistics [d1, d2] ! 2 = ''- **Total Precipitation:** 2.0mm''"
    "markdown_statistics [d1, d2] ! 4 = ''- **Average Wind Speed:** 6.0km/h''"
    unfolding markdown_statistics_def sums fixed_one_decimal by simp_all
  have report: "weather_data r = [d1, d2] \<longrightarrow>
      (\<forall>l \<in> set (markdown_statistics [d1, d2]). sublist l (content (exportAsMarkdown now r)))"
    using markdown_statistics_in_report [of _ r now] by auto
  show ?thesis
    by (intro conjI lines report exportAsCSV_content)
qed

theorem C8_statistics_witness:
  "markdown_statistics [day_one, day_two] ! 0
     = ''- **Average Max Temperature:** 21.0'' @ degree @ ''C''
   \<and> markdown_statistics [day_one, day_two] ! 4 = ''- **Average Wind Speed:** 6.0km/h''
   \<and> sublist (markdown_statistics [day_one, day_two] ! 0)
        (content (exportAsMarkdown ''6/3/2024, 8:00:00 AM'' sample_request))"
proof -
  note T = C8_statistics [of day_one day_two sample_request "''6/3/2024, 8:00:00 AM''"]
  have a: "temperature_max day_one = Fin 20" "temperature_min day_one = Fin 10"
    "precipitation day_one = Fin 0" "wind_speed_max day_one = Fin 5"
    by (simp_all add: day_one_def)
  have b: "temperature_max day_two = Fin 22" "temperature_min day_two = Fin 12"
    "precipitation day_two = Fin 2" "wind_speed_max day_two = Fin 7"
    by (simp_all add: day_two_def)
  note T' = T [OF a b]
  have w: "weather_data sample_request = [day_one, day_two]"
    by (simp add: sample_request_def)
  have m: "markdown_statistics [day_one, day_two] ! 0 \<in> set (markdown_statistics [day_one, day_two])"
    by (simp add: markdown_statistics_def)
  have 1: "markdown_statistics [day_one, day_two] ! 0
     = ''- **Average Max Temperature:** 21.0'' @ degree @ ''C''"
    and 2: "markdown_statistics [day_one, day_two] ! 4 = ''- **Average Wind Speed:** 6.0km/h''"
    using T' by blast+
  have 3: "sublist (markdown_statistics [day_one, day_two] ! 0)
        (content (exportAsMarkdown ''6/3/2024, 8:00:00 AM'' sample_request))"
    using T' w m by blast
  show ?thesis
    using 1 2 3 by blast
qed

text \<open>
  The claim as stated fails for the CSV export: for a request with this weather data it is
  the text below, which has no statistics.
\<close>

theorem C8_statistics_counterexample:
  \<open>content (exportAsCSV sample_request) =
     ''# Weather Data for Paris, France'' @ newline
     @ ''# Date Range: 2024-06-01 to 2024-06-02'' @ newline
     @ ''# Location: 48, 2'' @ newline
     @ ''# Timezone: Europe/Paris'' @ newline
     @ ''# Notes: A & B <C>'' @ join '','' csv_headers @ newline
     @ ''2024-06-01,20,10,15,19,9,0,0,3,"Overcast",5,45'' @ newline
     @ ''2024-06-02,22,12,,23,13,2,2,61,"Rain & "wind"",7,90''\<close>
proof -
  have "sample_request = sample_request\<lparr>weather_data := [day_one, day_two]\<rparr>"
    by (simp add: sample_request_def)
  then have "csv_metadata sample_request =
     ''# Weather Data for Paris, France'' @ newline
     @ ''# Date Range: 2024-06-01 to 2024-06-02'' @ newline
     @ ''# Location: 48, 2'' @ newline
     @ ''# Timezone: Europe/Paris'' @ newline
     @ ''# Notes: A & B <C>''"
    using csv_metadata_sample [of "[day_one, day_two]"] by simp
  moreover have "weather_data sample_request = [day_one, day_two]"
    by (simp add: sample_request_def)
  ultimately show ?thesis
    by (simp add: exportAsCSV_content csv_row_day_one csv_row_day_two)
qed




end
